theory Spec2Isabelle
  imports Complex_Main
begin

section \<open>MediaStatus: a shallow embedding of \<^verbatim>\<open>src/index.tsx\<close>\<close>

text \<open>
  The plugin polls a Jellyfin or Plex server, normalises the answer into a \<^verbatim>\<open>MediaData\<close>
  object and dispatches a rich-presence activity (or a clear signal) to Discord's Flux
  dispatcher.

  Conventions of the embedding.
  \<^item> A JavaScript value that may be \<^verbatim>\<open>undefined\<close> is an \<open>option\<close>; \<open>None\<close> is
    \<^verbatim>\<open>undefined\<close> (an absent property).
  \<^item> The JSON bodies are typed after the properties the source reads: every property is
    optional, and a present property has the JSON type the server documents for it (tick
    counts, offsets, indices and years are integers; names are strings). JSON \<^verbatim>\<open>null\<close>
    and properties of another JSON type are outside the input type.
  \<^item> A JavaScript number is an IEEE double. The numbers of a body are integers, each the
    value that \<^verbatim>\<open>JSON.parse\<close> returned, of type \<open>int\<close>. The operators \<^verbatim>\<open>/\<close> and \<^verbatim>\<open>*\<close>
    round the exact result to the nearest double, ties to even (\<open>fl\<close>, with 53 bits and
    the subnormal range; a result from \<open>2^1024\<close> on, which JavaScript turns into
    \<^verbatim>\<open>Infinity\<close>, is outside the model). \<^verbatim>\<open>Math.floor\<close> and \<^verbatim>\<open>Math.round\<close> are exact on
    a double. Sums and differences are taken in the integers, which is what the doubles
    give while operands and result stay below \<open>2^53\<close>. The one place where the source can
    produce \<^verbatim>\<open>NaN\<close> (the progress of a session without a position) has the type
    \<open>jsnum\<close>.
  \<^item> A string is a list of bytes (UTF-8); \<^verbatim>\<open>toLowerCase\<close> acts on the ASCII letters.
  \<^item> A \<^verbatim>\<open>throw\<close> or a rejected promise is \<open>Inl e\<close>; \<^verbatim>\<open>try { ... } catch\<close> is
    \<open>try_catch\<close>. \<^verbatim>\<open>logger.error\<close> only writes to the console and is left out;
    \<^verbatim>\<open>FluxDispatcher.dispatch\<close> and \<^verbatim>\<open>PresenceStore.getActivities\<close> are taken to return
    normally.
\<close>

subsection \<open>JavaScript primitives\<close>

datatype js_error =
    TypeError
  | SyntaxError
  | NetworkError
  | HttpError nat
  | AssetError

datatype jsnum = Num int | NaN

definition thenE :: "js_error + 'a \<Rightarrow> ('a \<Rightarrow> js_error + 'b) \<Rightarrow> js_error + 'b" where
  "thenE r k = (case r of Inl e \<Rightarrow> Inl e | Inr v \<Rightarrow> k v)"

definition try_catch :: "js_error + 'a \<Rightarrow> (js_error \<Rightarrow> js_error + 'a) \<Rightarrow> js_error + 'a" where
  "try_catch body handler = (case body of Inl e \<Rightarrow> handler e | Inr v \<Rightarrow> Inr v)"

text \<open>Truthiness of a possibly absent string, number or boolean.\<close>

definition truthy_str :: "string option \<Rightarrow> bool" where
  "truthy_str v = (case v of None \<Rightarrow> False | Some s \<Rightarrow> s \<noteq> [])"

definition truthy_num :: "int option \<Rightarrow> bool" where
  "truthy_num v = (case v of None \<Rightarrow> False | Some n \<Rightarrow> n \<noteq> 0)"

definition truthy_bool :: "bool option \<Rightarrow> bool" where
  "truthy_bool v = (case v of None \<Rightarrow> False | Some b \<Rightarrow> b)"

text \<open>
  \<^verbatim>\<open>String.prototype.toLowerCase\<close> on the ASCII letters; every other byte is kept, so
  the few letters outside ASCII that JavaScript lowers to an ASCII one (the Kelvin sign
  U+212A to k) are not lowered here.
\<close>

definition lower_char :: "char \<Rightarrow> char" where
  "lower_char c =
     (case map_of (zip ''ABCDEFGHIJKLMNOPQRSTUVWXYZ'' ''abcdefghijklmnopqrstuvwxyz'') c of
        Some d \<Rightarrow> d
      | None \<Rightarrow> c)"

definition toLowerCase :: "string \<Rightarrow> string" where
  "toLowerCase s = map lower_char s"

text \<open>
  \<^verbatim>\<open>Number.prototype.toString\<close> and the number in a template literal, for an integer
  that is a double of magnitude below \<open>10^21\<close> (where JavaScript switches to exponent
  notation).
\<close>

definition digit_char :: "nat \<Rightarrow> char" where
  "digit_char d = ''0123456789'' ! d"

fun dec_nat :: "nat \<Rightarrow> string" where
  "dec_nat n = (if n < 10 then [digit_char n] else dec_nat (n div 10) @ [digit_char (n mod 10)])"

declare dec_nat.simps [simp del]

definition numToString :: "int \<Rightarrow> string" where
  "numToString n = (if n < 0 then CHR ''-'' # dec_nat (nat (- n)) else dec_nat (nat n))"

text \<open>A string-typed value in a template literal: \<^verbatim>\<open>undefined\<close> prints as its name.\<close>

definition tmpl :: "string option \<Rightarrow> string" where
  "tmpl v = (case v of None \<Rightarrow> ''undefined'' | Some s \<Rightarrow> s)"

text \<open>\<^verbatim>\<open>String.prototype.padStart(targetLength, padString)\<close>.\<close>

definition padStart :: "string \<Rightarrow> nat \<Rightarrow> string \<Rightarrow> string" where
  "padStart s targetLength padString =
     (if targetLength \<le> length s \<or> padString = [] then s
      else take (targetLength - length s)
             (concat (replicate (targetLength - length s) padString)) @ s)"

text \<open>
  \<^verbatim>\<open>Array.prototype.join\<close> on an array of possibly undefined strings: an undefined entry
  is joined as the empty string.
\<close>

fun js_join :: "string \<Rightarrow> string option list \<Rightarrow> string" where
  "js_join sep [] = []"
| "js_join sep [x] = (case x of None \<Rightarrow> [] | Some s \<Rightarrow> s)"
| "js_join sep (x # y # ys) = (case x of None \<Rightarrow> [] | Some s \<Rightarrow> s) @ sep @ js_join sep (y # ys)"

text \<open>
  IEEE double arithmetic. \<open>bits n\<close> is the length of \<open>n\<close> in binary; \<open>binade x\<close> is the
  exponent \<open>e\<close> with \<open>2^e \<le> x < 2^(e+1)\<close> of a positive \<open>x\<close>; \<open>ulp x\<close> is the distance
  between the doubles around \<open>x\<close>, \<open>2^(e-52)\<close> and never less than \<open>2^(-1074)\<close>; \<open>fl x\<close> is
  the double nearest to \<open>x\<close>, a tie going to the even significand.
\<close>

fun bits :: "nat \<Rightarrow> nat" where
  "bits n = (if n < 1 then 0 else 1 + bits (n div 2))"

declare bits.simps [simp del]

definition binade :: "rat \<Rightarrow> int" where
  "binade x =
     (if 1 \<le> x then int (bits (nat \<lfloor>x\<rfloor>)) - 1
      else - int (bits (nat (- \<lfloor>- (1 / x)\<rfloor> - 1))))"

definition ulp :: "rat \<Rightarrow> rat" where
  "ulp x = 2 powi (max (binade x) (- 1022) - 52)"

definition round_ties_even :: "rat \<Rightarrow> int" where
  "round_ties_even y =
     (let f = \<lfloor>y\<rfloor>; r = y - of_int f
      in if r < 1 / 2 then f else if 1 / 2 < r then f + 1 else if even f then f else f + 1)"

definition fl :: "rat \<Rightarrow> rat" where
  "fl x =
     (if x = 0 then 0
      else sgn x * (of_int (round_ties_even (\<bar>x\<bar> / ulp \<bar>x\<bar>)) * ulp \<bar>x\<bar>))"

text \<open>The operators \<^verbatim>\<open>a / b\<close> and \<^verbatim>\<open>a * b\<close> on doubles.\<close>

definition js_div :: "rat \<Rightarrow> rat \<Rightarrow> rat" where
  "js_div a b = fl (a / b)"

definition js_mul :: "rat \<Rightarrow> rat \<Rightarrow> rat" where
  "js_mul a b = fl (a * b)"

text \<open>\<^verbatim>\<open>Math.round\<close>: the nearest integer, a half rounding up; \<^verbatim>\<open>Math.floor\<close>.\<close>

definition Math_round :: "rat \<Rightarrow> int" where
  "Math_round x = \<lfloor>x + 1 / 2\<rfloor>"

definition Math_floor :: "rat \<Rightarrow> int" where
  "Math_floor x = \<lfloor>x\<rfloor>"

subsection \<open>Enumerations, settings and the media model\<close>

definition DISCORD_APP_ID :: string where
  "DISCORD_APP_ID = ''1333493119525720082''"

datatype MediaType = MOVIE | EPISODE | AUDIO | VIDEO | PHOTO | UNKNOWN

datatype ServiceType = JELLYFIN | PLEX

datatype DisplayFormat = NATURAL | SHORT | MINIMAL

record settings =
  serverType :: ServiceType
  serverUrl :: "string option"
  apiKey :: "string option"
  episodeFormat :: DisplayFormat
  showTimestamps :: bool
  serverName :: "string option"
  updateInterval :: nat
  hideWhenPaused :: bool
  hideWhenOtherActivity :: bool

text \<open>
  \<^verbatim>\<open>interface MediaData\<close>. The interface declares \<^verbatim>\<open>title\<close> and \<^verbatim>\<open>isPaused\<close> as
  required, but the adapters copy them from the response unchecked, so they can be
  undefined at run time.
\<close>

record MediaData =
  title :: "string option"
  mtype :: MediaType
  progress :: "jsnum option"
  isPaused :: "bool option"
  imageUrl :: "string option"
  duration :: "int option"
  position :: "int option"
  series :: "string option"
  season :: "int option"
  episode :: "int option"
  year :: "int option"
  studio :: "string option"
  artist :: "string option"
  albumTitle :: "string option"
  albumArtist :: "string option"
  photographer :: "string option"

subsection \<open>The HTTP collaborator\<close>

text \<open>
  \<^verbatim>\<open>fetch(url, {headers})\<close> either rejects or resolves to a response; \<^verbatim>\<open>response.json()\<close>
  either rejects (the body is not JSON) or resolves to the parsed body.
\<close>

record 'b response =
  ok :: bool
  status :: nat
  json :: "js_error + 'b"

type_synonym 'b fetch = "string \<Rightarrow> (string \<times> string) list \<Rightarrow> js_error + 'b response"

subsection \<open>The Jellyfin adapter: \<^verbatim>\<open>fetchJellyfinData\<close>\<close>

record jf_image_tags =
  Primary :: "string option"

record jf_item =
  Name :: "string option"
  Type :: "string option"
  RunTimeTicks :: "int option"
  ImageTags :: "jf_image_tags option"
  item_Id :: "string option"
  ProductionYear :: "int option"
  SeriesName :: "string option"
  ParentIndexNumber :: "int option"
  IndexNumber :: "int option"
  Artists :: "string list option"
  AlbumArtist :: "string option"
  Album :: "string option"

record jf_play_state =
  PositionTicks :: "int option"
  IsPaused :: "bool option"

record jf_session =
  NowPlayingItem :: "jf_item option"
  PlayState :: "jf_play_state option"

text \<open>
  The body of \<^verbatim>\<open>GET /Sessions\<close>: an array of sessions, or any other JSON value, on which
  \<^verbatim>\<open>sessions.find\<close> is not a function.
\<close>

datatype jf_body = Sessions "jf_session list" | NotAnArray

definition toMs :: "int \<Rightarrow> int" where
  "toMs ticks = Math_floor (js_div (of_int ticks) 10000)"

text \<open>
  \<^verbatim>\<open>Math.round((position / duration) * 100)\<close>, reached only with a truthy duration; an
  undefined position makes the quotient \<^verbatim>\<open>NaN\<close>.
\<close>

definition percent :: "int option \<Rightarrow> int \<Rightarrow> jsnum" where
  "percent pos dur =
     (case pos of
        None \<Rightarrow> NaN
      | Some p \<Rightarrow> Num (Math_round (js_mul (js_div (of_int p) (of_int dur)) 100)))"

text \<open>\<^verbatim>\<open>getMediaType\<close> of the Jellyfin adapter; \<^verbatim>\<open>type.toLowerCase()\<close> throws on undefined.\<close>

definition jf_getMediaType :: "string option \<Rightarrow> js_error + MediaType" where
  "jf_getMediaType ty =
     (case ty of
        None \<Rightarrow> Inl TypeError
      | Some t \<Rightarrow>
          Inr (let l = toLowerCase t in
               if l = ''movie'' then MOVIE
               else if l = ''episode'' then EPISODE
               else if l = ''audio'' then AUDIO
               else if l = ''video'' then VIDEO
               else if l = ''photo'' then PHOTO
               else UNKNOWN))"

text \<open>The object literal \<^verbatim>\<open>baseData\<close> of the Jellyfin adapter.\<close>

definition jf_baseData ::
  "string \<Rightarrow> string \<Rightarrow> jf_item \<Rightarrow> jf_play_state option \<Rightarrow> js_error + MediaData" where
  "jf_baseData url key item playState =
     thenE (jf_getMediaType (Type item)) (\<lambda>ty.
     thenE (if truthy_num (RunTimeTicks item)
            then (case playState of
                    None \<Rightarrow> Inl TypeError
                  | Some ps \<Rightarrow> Inr (Some (percent (PositionTicks ps) (the (RunTimeTicks item)))))
            else Inr None) (\<lambda>prog.
     case playState of
       None \<Rightarrow> Inl TypeError
     | Some ps \<Rightarrow>
         Inr \<lparr> title = Name item,
               mtype = ty,
               progress = prog,
               isPaused = IsPaused ps,
               imageUrl =
                 (if truthy_str (case ImageTags item of None \<Rightarrow> None | Some tags \<Rightarrow> Primary tags)
                  then Some (url @ ''/Items/'' @ tmpl (item_Id item)
                             @ ''/Images/Primary?api_key='' @ key)
                  else None),
               duration =
                 (if truthy_num (RunTimeTicks item) then Some (toMs (the (RunTimeTicks item)))
                  else None),
               position =
                 (if truthy_num (PositionTicks ps) then Some (toMs (the (PositionTicks ps)))
                  else None),
               series = None,
               season = None,
               episode = None,
               year = ProductionYear item,
               studio = None,
               artist = None,
               albumTitle = None,
               albumArtist = None,
               photographer = None \<rparr>))"

text \<open>The \<^verbatim>\<open>switch (baseData.type)\<close> that adds the fields of the variant.\<close>

definition jf_variant :: "jf_item \<Rightarrow> MediaData \<Rightarrow> MediaData" where
  "jf_variant item baseData =
     (case mtype baseData of
        EPISODE \<Rightarrow>
          baseData \<lparr> series := SeriesName item,
                     season := ParentIndexNumber item,
                     episode := IndexNumber item \<rparr>
      | AUDIO \<Rightarrow>
          baseData \<lparr> artist := (case Artists item of
                                  None \<Rightarrow> None
                                | Some as \<Rightarrow> (case as of [] \<Rightarrow> None | a # _ \<Rightarrow> Some a)),
                     albumArtist := AlbumArtist item,
                     albumTitle := Album item \<rparr>
      | _ \<Rightarrow> baseData)"

text \<open>The part of the adapter after \<^verbatim>\<open>sessions.find\<close> has found a session.\<close>

definition jf_media :: "string \<Rightarrow> string \<Rightarrow> jf_session \<Rightarrow> js_error + MediaData" where
  "jf_media url key playingSession =
     (case NowPlayingItem playingSession of
        None \<Rightarrow> Inl TypeError
      | Some item \<Rightarrow>
          thenE (jf_baseData url key item (PlayState playingSession)) (\<lambda>baseData.
          Inr (jf_variant item baseData)))"

text \<open>
  The first half of the \<^verbatim>\<open>try\<close> block of \<^verbatim>\<open>fetchJellyfinData\<close>: the request, the status
  check, the parse and \<^verbatim>\<open>sessions.find(s => s.NowPlayingItem)\<close>.
\<close>

definition jf_playingSession ::
  "string \<Rightarrow> string \<Rightarrow> jf_body fetch \<Rightarrow> js_error + jf_session option" where
  "jf_playingSession url key fetch =
     thenE (fetch (url @ ''/Sessions'') [(''X-Emby-Token'', key)]) (\<lambda>response.
     if \<not> ok response then Inl (HttpError (status response))
     else
       thenE (json response) (\<lambda>sessions.
       case sessions of
         NotAnArray \<Rightarrow> Inl TypeError
       | Sessions ss \<Rightarrow> Inr (find (\<lambda>s. NowPlayingItem s \<noteq> None) ss)))"

text \<open>The \<^verbatim>\<open>try\<close> block of \<^verbatim>\<open>fetchJellyfinData\<close>.\<close>

definition fetchJellyfinData_try ::
  "string \<Rightarrow> string \<Rightarrow> jf_body fetch \<Rightarrow> js_error + MediaData option" where
  "fetchJellyfinData_try url key fetch =
     thenE (jf_playingSession url key fetch) (\<lambda>found.
     case found of
       None \<Rightarrow> Inr None
     | Some playingSession \<Rightarrow> thenE (jf_media url key playingSession) (\<lambda>m. Inr (Some m)))"

definition fetchJellyfinData :: "settings \<Rightarrow> jf_body fetch \<Rightarrow> js_error + MediaData option" where
  "fetchJellyfinData st fetch =
     (if \<not> truthy_str (serverUrl st) \<or> \<not> truthy_str (apiKey st) then Inr None
      else try_catch
             (fetchJellyfinData_try (the (serverUrl st)) (the (apiKey st)) fetch)
             (\<lambda>e. Inr None))"

subsection \<open>The Plex adapter: \<^verbatim>\<open>fetchPlexData\<close>\<close>

record plex_player =
  player_state :: "string option"

record plex_session =
  px_title :: "string option"
  px_type :: "string option"
  px_duration :: "int option"
  px_viewOffset :: "int option"
  px_Player :: "plex_player option"
  px_thumb :: "string option"
  px_year :: "int option"
  px_studio :: "string option"
  px_grandparentTitle :: "string option"
  px_parentIndex :: "int option"
  px_index :: "int option"
  px_originalTitle :: "string option"
  px_parentTitle :: "string option"

record plex_container =
  Metadata :: "plex_session list option"

record plex_body =
  MediaContainer :: "plex_container option"

definition plex_getMediaType :: "string option \<Rightarrow> js_error + MediaType" where
  "plex_getMediaType ty =
     (case ty of
        None \<Rightarrow> Inl TypeError
      | Some t \<Rightarrow>
          Inr (let l = toLowerCase t in
               if l = ''movie'' then MOVIE
               else if l = ''episode'' then EPISODE
               else if l = ''track'' then AUDIO
               else if l = ''photo'' then PHOTO
               else if l = ''clip'' then VIDEO
               else UNKNOWN))"

text \<open>\<^verbatim>\<open>a || b\<close> on possibly undefined strings.\<close>

definition or_str :: "string option \<Rightarrow> string option \<Rightarrow> string option" where
  "or_str a b = (if truthy_str a then a else b)"

definition plex_baseData :: "string \<Rightarrow> string \<Rightarrow> plex_session \<Rightarrow> js_error + MediaData" where
  "plex_baseData url key session =
     thenE (plex_getMediaType (px_type session)) (\<lambda>ty.
     case px_Player session of
       None \<Rightarrow> Inl TypeError
     | Some player \<Rightarrow>
         Inr \<lparr> title = px_title session,
               mtype = ty,
               progress =
                 (if truthy_num (px_duration session)
                  then Some (percent (px_viewOffset session) (the (px_duration session)))
                  else None),
               isPaused = Some (player_state player \<noteq> Some ''playing''),
               imageUrl =
                 (if truthy_str (px_thumb session)
                  then Some (url @ tmpl (px_thumb session) @ ''?X-Plex-Token='' @ key)
                  else None),
               duration = px_duration session,
               position = px_viewOffset session,
               series = None,
               season = None,
               episode = None,
               year = px_year session,
               studio = px_studio session,
               artist = None,
               albumTitle = None,
               albumArtist = None,
               photographer = None \<rparr>)"

definition plex_variant :: "plex_session \<Rightarrow> MediaData \<Rightarrow> MediaData" where
  "plex_variant session baseData =
     (case mtype baseData of
        EPISODE \<Rightarrow>
          baseData \<lparr> series := px_grandparentTitle session,
                     season := px_parentIndex session,
                     episode := px_index session \<rparr>
      | AUDIO \<Rightarrow>
          baseData \<lparr> artist := or_str (px_originalTitle session) (px_grandparentTitle session),
                     albumArtist := px_grandparentTitle session,
                     albumTitle := px_parentTitle session \<rparr>
      | PHOTO \<Rightarrow>
          baseData \<lparr> photographer := or_str (px_originalTitle session) None \<rparr>
      | _ \<Rightarrow> baseData)"

definition plex_media :: "string \<Rightarrow> string \<Rightarrow> plex_session \<Rightarrow> js_error + MediaData" where
  "plex_media url key session =
     thenE (plex_baseData url key session) (\<lambda>baseData.
     Inr (plex_variant session baseData))"

text \<open>
  The first half of the \<^verbatim>\<open>try\<close> block of \<^verbatim>\<open>fetchPlexData\<close>: the request, the status
  check, the parse and \<^verbatim>\<open>data.MediaContainer.Metadata?.[0]\<close>, which throws when the
  container is missing and is undefined when the list is missing or empty.
\<close>

definition plex_firstSession ::
  "string \<Rightarrow> string \<Rightarrow> plex_body fetch \<Rightarrow> js_error + plex_session option" where
  "plex_firstSession url key fetch =
     thenE (fetch (url @ ''/status/sessions'')
              [(''X-Plex-Token'', key), (''Accept'', ''application/json'')]) (\<lambda>response.
     if \<not> ok response then Inl (HttpError (status response))
     else
       thenE (json response) (\<lambda>data.
       case MediaContainer data of
         None \<Rightarrow> Inl TypeError
       | Some container \<Rightarrow>
           Inr (case Metadata container of
                  None \<Rightarrow> None
                | Some ms \<Rightarrow> (case ms of [] \<Rightarrow> None | m # _ \<Rightarrow> Some m))))"

text \<open>The \<^verbatim>\<open>try\<close> block of \<^verbatim>\<open>fetchPlexData\<close>.\<close>

definition fetchPlexData_try ::
  "string \<Rightarrow> string \<Rightarrow> plex_body fetch \<Rightarrow> js_error + MediaData option" where
  "fetchPlexData_try url key fetch =
     thenE (plex_firstSession url key fetch) (\<lambda>found.
     case found of
       None \<Rightarrow> Inr None
     | Some session \<Rightarrow> thenE (plex_media url key session) (\<lambda>m. Inr (Some m)))"

definition fetchPlexData :: "settings \<Rightarrow> plex_body fetch \<Rightarrow> js_error + MediaData option" where
  "fetchPlexData st fetch =
     (if \<not> truthy_str (serverUrl st) \<or> \<not> truthy_str (apiKey st) then Inr None
      else try_catch
             (fetchPlexData_try (the (serverUrl st)) (the (apiKey st)) fetch)
             (\<lambda>e. Inr None))"

subsection \<open>Presentation: \<^verbatim>\<open>formatEpisodeNumber\<close> and \<^verbatim>\<open>getServerName\<close>\<close>

definition pad :: "int \<Rightarrow> string" where
  "pad n = padStart (numToString n) 2 ''0''"

definition formatEpisodeNumber :: "settings \<Rightarrow> int option \<Rightarrow> int option \<Rightarrow> string" where
  "formatEpisodeNumber st season_arg episode_arg =
     (case (season_arg, episode_arg) of
        (Some s, Some e) \<Rightarrow>
          if s = 0 \<or> e = 0 then ''''
          else (case episodeFormat st of
                  SHORT \<Rightarrow> ''S'' @ pad s @ ''E'' @ pad e
                | MINIMAL \<Rightarrow> numToString s @ ''x'' @ pad e
                | _ \<Rightarrow> ''Season '' @ numToString s @ '' Episode '' @ numToString e)
      | _ \<Rightarrow> '''')"

definition getServerName :: "settings \<Rightarrow> string" where
  "getServerName st =
     (if truthy_str (serverName st) then the (serverName st)
      else if serverType st = JELLYFIN then ''Jellyfin'' else ''Plex'')"

text \<open>
  The episode label as the specification words it: the number as it is for the natural
  format, and "zero-padded to 2 digits" where a pad is asked for.
\<close>

definition spec_two_digits :: "int \<Rightarrow> string" where
  "spec_two_digits n = (if 0 \<le> n \<and> n < 10 then CHR ''0'' # numToString n else numToString n)"

definition spec_episode_label :: "DisplayFormat \<Rightarrow> int \<Rightarrow> int \<Rightarrow> string" where
  "spec_episode_label fmt s e =
     (case fmt of
        NATURAL \<Rightarrow> ''Season '' @ numToString s @ '' Episode '' @ numToString e
      | SHORT \<Rightarrow> ''S'' @ spec_two_digits s @ ''E'' @ spec_two_digits e
      | MINIMAL \<Rightarrow> numToString s @ ''x'' @ spec_two_digits e)"

subsection \<open>The presence controller\<close>

record assets =
  large_image :: "string option"
  large_text :: "string option"
  small_image :: "string option"
  small_text :: string

record timestamps =
  ts_start :: int
  ts_end :: int

record activity =
  application_id :: string
  name :: "string option"
  details :: "string option"
  state :: string
  activity_assets :: "assets option"
  activity_timestamps :: "timestamps option"
  activity_type :: nat
  flags :: nat

text \<open>The object handed to \<^verbatim>\<open>FluxDispatcher.dispatch\<close>; the sink is the list of them, in order.\<close>

record flux_event =
  event_type :: string
  event_activity :: "activity option"
  socketId :: string

type_synonym sink = "flux_event list"

text \<open>An entry of \<^verbatim>\<open>PresenceStore.getActivities()\<close>, of which only the application is read.\<close>

record store_activity =
  store_application_id :: "string option"

text \<open>
  What one run of \<^verbatim>\<open>updatePresence\<close> reads from outside: the settings store, the network,
  the presence store, the clock (\<open>Date_now e k\<close> is the value of the \<open>k\<close>-th call of
  \<^verbatim>\<open>Date.now()\<close> in the run, counted from 0) and \<^verbatim>\<open>ApplicationAssetUtils.fetchAssetIds\<close>.
\<close>

record poll_env =
  store :: settings
  fetch_jellyfin :: "jf_body fetch"
  fetch_plex :: "plex_body fetch"
  getActivities :: "store_activity list"
  Date_now :: "nat \<Rightarrow> int"
  fetchAssetIds :: "string \<Rightarrow> string list \<Rightarrow> js_error + string list"

definition clear_event :: flux_event where
  "clear_event =
     \<lparr> event_type = ''LOCAL_ACTIVITY_UPDATE'', event_activity = None, socketId = ''MediaStatus'' \<rparr>"

definition clearPresence :: "sink \<Rightarrow> sink" where
  "clearPresence snk = snk @ [clear_event]"

definition getApplicationAsset :: "poll_env \<Rightarrow> string \<Rightarrow> js_error + string option" where
  "getApplicationAsset env key =
     thenE (fetchAssetIds env DISCORD_APP_ID [key]) (\<lambda>ids.
     Inr (case ids of [] \<Rightarrow> None | i # _ \<Rightarrow> Some i))"

definition getDetails :: "settings \<Rightarrow> MediaData \<Rightarrow> string option" where
  "getDetails st mediaData =
     (case mtype mediaData of
        EPISODE \<Rightarrow>
          Some (tmpl (series mediaData) @ '' - ''
                @ formatEpisodeNumber st (season mediaData) (episode mediaData))
      | AUDIO \<Rightarrow>
          Some (tmpl (artist mediaData)
                @ (if truthy_str (albumTitle mediaData)
                   then '' - '' @ the (albumTitle mediaData) else []))
      | MOVIE \<Rightarrow>
          Some (tmpl (title mediaData)
                @ (if truthy_num (year mediaData)
                   then '' ('' @ numToString (the (year mediaData)) @ '')'' else []))
      | PHOTO \<Rightarrow>
          Some (''Viewing ''
                @ (if truthy_str (photographer mediaData)
                   then the (photographer mediaData) @ [CHR 0x27, CHR ''s'', CHR '' ''] else [])
                @ ''photo'')
      | _ \<Rightarrow> title mediaData)"

text \<open>
  The separator of \<^verbatim>\<open>parts.join\<close>, byte for byte as in the source file: a space, the
  seven bytes \<^verbatim>\<open>c3 a2 e2 82 ac c2 a2\<close> and a space.
\<close>

definition state_separator :: string where
  "state_separator =
     [CHR '' '', CHR 0xC3, CHR 0xA2, CHR 0xE2, CHR 0x82, CHR 0xAC, CHR 0xC2, CHR 0xA2, CHR '' '']"

text \<open>The array \<^verbatim>\<open>parts\<close> of \<^verbatim>\<open>getState\<close> after the two \<^verbatim>\<open>unshift\<close> statements.\<close>

definition getState_parts :: "MediaData \<Rightarrow> string option list" where
  "getState_parts mediaData =
     (let parts0 = [];
          parts1 = (if mtype mediaData = EPISODE then title mediaData # parts0 else parts0);
          parts2 = (if mtype mediaData = AUDIO \<and> truthy_str (albumTitle mediaData)
                    then Some (''from '' @ the (albumTitle mediaData)) # parts1 else parts1)
      in parts2)"

definition getState :: "MediaData \<Rightarrow> string" where
  "getState mediaData =
     (let joined = js_join state_separator (getState_parts mediaData)
      in if joined \<noteq> [] then joined else ''Watching'')"

text \<open>\<^verbatim>\<open>mediaData.position || 0\<close>.\<close>

definition position_or_0 :: "MediaData \<Rightarrow> int" where
  "position_or_0 mediaData =
     (if truthy_num (position mediaData) then the (position mediaData) else 0)"

text \<open>The adapter call at the head of \<^verbatim>\<open>updatePresence\<close>.\<close>

definition fetch_media :: "poll_env \<Rightarrow> js_error + MediaData option" where
  "fetch_media env =
     (if serverType (store env) = JELLYFIN
      then fetchJellyfinData (store env) (fetch_jellyfin env)
      else fetchPlexData (store env) (fetch_plex env))"

definition make_timestamps :: "poll_env \<Rightarrow> MediaData \<Rightarrow> timestamps option" where
  "make_timestamps env mediaData =
     (if showTimestamps (store env) \<and> truthy_num (duration mediaData)
      then Some \<lparr> ts_start = Date_now env 0 - position_or_0 mediaData,
                  ts_end = Date_now env 1
                           + (the (duration mediaData) - position_or_0 mediaData) \<rparr>
      else None)"

definition make_assets :: "poll_env \<Rightarrow> MediaData \<Rightarrow> js_error + assets option" where
  "make_assets env mediaData =
     (if truthy_str (imageUrl mediaData)
      then thenE (getApplicationAsset env (the (imageUrl mediaData))) (\<lambda>large.
           thenE (getApplicationAsset env (tmpl (serverUrl (store env)) @ ''/web/favicon.png''))
             (\<lambda>small.
           Inr (Some \<lparr> large_image = large,
                        large_text = title mediaData,
                        small_image = small,
                        small_text = getServerName (store env) \<rparr>)))
      else Inr None)"

text \<open>
  The \<^verbatim>\<open>try\<close> block of \<^verbatim>\<open>updatePresence\<close>. Every dispatch is the last action of its path,
  so a throw leaves the sink as it was.
\<close>

definition updatePresence_try :: "poll_env \<Rightarrow> sink \<Rightarrow> js_error + sink" where
  "updatePresence_try env snk =
     thenE (fetch_media env) (\<lambda>result.
     case result of
       None \<Rightarrow> Inr (clearPresence snk)
     | Some mediaData \<Rightarrow>
         if truthy_bool (isPaused mediaData) \<and> hideWhenPaused (store env)
         then Inr (clearPresence snk)
         else if hideWhenOtherActivity (store env)
                 \<and> list_ex (\<lambda>a. store_application_id a \<noteq> Some DISCORD_APP_ID)
                      (getActivities env)
         then Inr (clearPresence snk)
         else
           (let timestamps = make_timestamps env mediaData in
            thenE (make_assets env mediaData) (\<lambda>assets.
            Inr (snk @
              [\<lparr> event_type = ''LOCAL_ACTIVITY_UPDATE'',
                 event_activity = Some
                   \<lparr> application_id = DISCORD_APP_ID,
                     name = title mediaData,
                     details = getDetails (store env) mediaData,
                     state = getState mediaData,
                     activity_assets = assets,
                     activity_timestamps = timestamps,
                     activity_type = (if mtype mediaData = AUDIO then 2 else 3),
                     flags = 1 \<rparr>,
                 socketId = ''MediaStatus'' \<rparr>]))))"

definition updatePresence :: "poll_env \<Rightarrow> sink \<Rightarrow> sink" where
  "updatePresence env snk =
     (case updatePresence_try env snk of
        Inl err \<Rightarrow> clearPresence snk
      | Inr snk' \<Rightarrow> snk')"

text \<open>
  The plugin object and the part of the JavaScript run time it lives in. \<open>interval\<close> is
  \<^verbatim>\<open>this.interval\<close> (a timer handle is never 0, so a held handle is truthy); \<open>timers\<close> are
  the handles \<^verbatim>\<open>setInterval\<close> has issued and \<^verbatim>\<open>clearInterval\<close> has not cancelled;
  \<open>in_flight\<close> are the runs of \<^verbatim>\<open>updatePresence\<close> that are suspended at an
  \<^verbatim>\<open>await\<close>, each with what it will read; \<open>dispatched\<close> is the sink.

  An \<^verbatim>\<open>async\<close> function runs up to its first \<^verbatim>\<open>await\<close> when called and the rest later:
  \<^verbatim>\<open>updatePresence\<close> awaits the adapter before any dispatch, so a call only adds a
  suspended run, and \<open>Resume k\<close> lets the \<open>k\<close>-th suspended run finish.
\<close>

record plugin =
  interval :: "nat option"
  timers :: "nat list"
  next_timer :: nat
  in_flight :: "poll_env list"
  dispatched :: sink

datatype event = Start poll_env | Stop | Tick nat poll_env | Resume nat

definition init :: plugin where
  "init = \<lparr> interval = None, timers = [], next_timer = 1, in_flight = [], dispatched = [] \<rparr>"

definition start :: "poll_env \<Rightarrow> plugin \<Rightarrow> plugin" where
  "start env p =
     p \<lparr> in_flight := in_flight p @ [env],
         interval := Some (next_timer p),
         timers := next_timer p # timers p,
         next_timer := Suc (next_timer p) \<rparr>"

definition stop :: "plugin \<Rightarrow> plugin" where
  "stop p =
     (let p' = (case interval p of
                  Some h \<Rightarrow> p \<lparr> timers := removeAll h (timers p), interval := None \<rparr>
                | None \<Rightarrow> p)
      in p' \<lparr> dispatched := clearPresence (dispatched p') \<rparr>)"

text \<open>The callback of \<^verbatim>\<open>setInterval\<close>; a cancelled timer does not fire.\<close>

definition tick :: "nat \<Rightarrow> poll_env \<Rightarrow> plugin \<Rightarrow> plugin" where
  "tick h env p = (if h \<in> set (timers p) then p \<lparr> in_flight := in_flight p @ [env] \<rparr> else p)"

definition resume :: "nat \<Rightarrow> plugin \<Rightarrow> plugin" where
  "resume k p =
     (if k < length (in_flight p)
      then p \<lparr> dispatched := updatePresence (in_flight p ! k) (dispatched p),
               in_flight := take k (in_flight p) @ drop (Suc k) (in_flight p) \<rparr>
      else p)"

fun step :: "plugin \<Rightarrow> event \<Rightarrow> plugin" where
  "step p (Start env) = start env p"
| "step p Stop = stop p"
| "step p (Tick h env) = tick h env p"
| "step p (Resume k) = resume k p"

definition run :: "plugin \<Rightarrow> event list \<Rightarrow> plugin" where
  "run p evs = foldl step p evs"

text \<open>The calls the owner of the plugin makes, as opposed to what the run time does.\<close>

fun is_call :: "event \<Rightarrow> bool" where
  "is_call (Start env) = True"
| "is_call Stop = True"
| "is_call ev = False"

text \<open>The two conditions under which \<^verbatim>\<open>updatePresence\<close> clears instead of showing.\<close>

definition suppressed :: "poll_env \<Rightarrow> MediaData \<Rightarrow> bool" where
  "suppressed env m \<longleftrightarrow>
     truthy_bool (isPaused m) \<and> hideWhenPaused (store env)
     \<or> hideWhenOtherActivity (store env)
       \<and> list_ex (\<lambda>a. store_application_id a \<noteq> Some DISCORD_APP_ID) (getActivities env)"

subsection \<open>Example inputs\<close>

definition example_settings :: settings where
  "example_settings =
     \<lparr> serverType = JELLYFIN, serverUrl = Some ''http://media.local'', apiKey = Some ''key'',
       episodeFormat = NATURAL, showTimestamps = True, serverName = None, updateInterval = 10,
       hideWhenPaused = True, hideWhenOtherActivity = False \<rparr>"

text \<open>A Jellyfin session that plays an episode of 5 seconds, half way through.\<close>

definition example_item :: jf_item where
  "example_item =
     \<lparr> Name = Some ''Pilot'', Type = Some ''Episode'', RunTimeTicks = Some 50000000,
       ImageTags = None, item_Id = Some ''42'', ProductionYear = Some 2008,
       SeriesName = Some ''Show'', ParentIndexNumber = Some 1, IndexNumber = Some 2,
       Artists = None, AlbumArtist = None, Album = None \<rparr>"

definition example_play_state :: jf_play_state where
  "example_play_state = \<lparr> PositionTicks = Some 25000000, IsPaused = Some False \<rparr>"

definition example_session :: jf_session where
  "example_session =
     \<lparr> NowPlayingItem = Some example_item, PlayState = Some example_play_state \<rparr>"

definition idle_session :: jf_session where
  "idle_session = \<lparr> NowPlayingItem = None, PlayState = None \<rparr>"

definition example_jf_fetch :: "jf_body fetch" where
  "example_jf_fetch =
     (\<lambda>url headers.
        Inr \<lparr> ok = True, status = 200, json = Inr (Sessions [idle_session, example_session]) \<rparr>)"

definition example_media :: MediaData where
  "example_media =
     \<lparr> title = Some ''Pilot'', mtype = EPISODE, progress = Some (Num 50),
       isPaused = Some False, imageUrl = None, duration = Some 5000, position = Some 2500,
       series = Some ''Show'', season = Some 1, episode = Some 2, year = Some 2008,
       studio = None, artist = None, albumTitle = None, albumArtist = None,
       photographer = None \<rparr>"

text \<open>The same session reported 10 seconds into the 5 seconds of the episode.\<close>

definition overrun_session :: jf_session where
  "overrun_session =
     \<lparr> NowPlayingItem = Some example_item,
       PlayState = Some \<lparr> PositionTicks = Some 100000000, IsPaused = Some False \<rparr> \<rparr>"

definition overrun_fetch :: "jf_body fetch" where
  "overrun_fetch =
     (\<lambda>url headers. Inr \<lparr> ok = True, status = 200, json = Inr (Sessions [overrun_session]) \<rparr>)"

text \<open>A Plex session that plays a track of 200 seconds, a quarter through.\<close>

definition example_plex_session :: plex_session where
  "example_plex_session =
     \<lparr> px_title = Some ''Come Together'', px_type = Some ''track'', px_duration = Some 200000,
       px_viewOffset = Some 50000, px_Player = Some \<lparr> player_state = Some ''playing'' \<rparr>,
       px_thumb = None, px_year = Some 1969, px_studio = None,
       px_grandparentTitle = Some ''The Beatles'', px_parentIndex = None, px_index = Some 1,
       px_originalTitle = None, px_parentTitle = Some ''Abbey Road'' \<rparr>"

definition example_plex_fetch :: "plex_body fetch" where
  "example_plex_fetch =
     (\<lambda>url headers.
        Inr \<lparr> ok = True, status = 200,
              json = Inr \<lparr> MediaContainer =
                             Some \<lparr> Metadata = Some [example_plex_session] \<rparr> \<rparr> \<rparr>)"

definition example_plex_media :: MediaData where
  "example_plex_media =
     \<lparr> title = Some ''Come Together'', mtype = AUDIO, progress = Some (Num 25),
       isPaused = Some False, imageUrl = None, duration = Some 200000, position = Some 50000,
       series = None, season = None, episode = None, year = Some 1969, studio = None,
       artist = Some ''The Beatles'', albumTitle = Some ''Abbey Road'',
       albumArtist = Some ''The Beatles'', photographer = None \<rparr>"

text \<open>Fetches that fail: no connection, a 500 answer, a body that is not JSON, no session.\<close>

definition rejecting_fetch :: "'b fetch" where
  "rejecting_fetch = (\<lambda>url headers. Inl NetworkError)"

definition error_fetch :: "'b fetch" where
  "error_fetch = (\<lambda>url headers. Inr \<lparr> ok = False, status = 500, json = Inl SyntaxError \<rparr>)"

definition garbage_fetch :: "'b fetch" where
  "garbage_fetch = (\<lambda>url headers. Inr \<lparr> ok = True, status = 200, json = Inl SyntaxError \<rparr>)"

definition idle_jf_fetch :: "jf_body fetch" where
  "idle_jf_fetch =
     (\<lambda>url headers. Inr \<lparr> ok = True, status = 200, json = Inr (Sessions [idle_session]) \<rparr>)"

definition idle_plex_fetch :: "plex_body fetch" where
  "idle_plex_fetch =
     (\<lambda>url headers.
        Inr \<lparr> ok = True, status = 200,
              json = Inr \<lparr> MediaContainer = Some \<lparr> Metadata = None \<rparr> \<rparr> \<rparr>)"

definition not_array_fetch :: "jf_body fetch" where
  "not_array_fetch = (\<lambda>url headers. Inr \<lparr> ok = True, status = 200, json = Inr NotAnArray \<rparr>)"

definition no_container_fetch :: "plex_body fetch" where
  "no_container_fetch =
     (\<lambda>url headers. Inr \<lparr> ok = True, status = 200, json = Inr \<lparr> MediaContainer = None \<rparr> \<rparr>)"

definition empty_title_episode :: MediaData where
  "empty_title_episode = example_media \<lparr> title := Some [] \<rparr>"

definition example_movie :: MediaData where
  "example_movie =
     \<lparr> title = Some ''Alien'', mtype = MOVIE, progress = None, isPaused = Some False,
       imageUrl = None, duration = None, position = None, series = None, season = None,
       episode = None, year = Some 1979, studio = None, artist = None, albumTitle = None,
       albumArtist = None, photographer = None \<rparr>"

text \<open>
  One run of \<^verbatim>\<open>updatePresence\<close> on the example session: the clock reads 1000000 and then
  1000001, and nothing else is shown in the presence store.
\<close>

definition example_env :: poll_env where
  "example_env =
     \<lparr> store = example_settings, fetch_jellyfin = example_jf_fetch,
       fetch_plex = example_plex_fetch, getActivities = [],
       Date_now = (\<lambda>k. if k = 0 then 1000000 else 1000001),
       fetchAssetIds = (\<lambda>app keys. Inr keys) \<rparr>"

definition example_activity :: activity where
  "example_activity =
     \<lparr> application_id = DISCORD_APP_ID, name = Some ''Pilot'',
       details = Some ''Show - Season 1 Episode 2'', state = ''Pilot'',
       activity_assets = None,
       activity_timestamps = Some \<lparr> ts_start = 997500, ts_end = 1002501 \<rparr>,
       activity_type = 3, flags = 1 \<rparr>"

definition example_event :: flux_event where
  "example_event =
     \<lparr> event_type = ''LOCAL_ACTIVITY_UPDATE'', event_activity = Some example_activity,
       socketId = ''MediaStatus'' \<rparr>"

text \<open>A Jellyfin session that plays a photo, which has no run time.\<close>

definition photo_item :: jf_item where
  "photo_item =
     \<lparr> Name = Some ''Beach'', Type = Some ''Photo'', RunTimeTicks = None,
       ImageTags = None, item_Id = Some ''43'', ProductionYear = None,
       SeriesName = None, ParentIndexNumber = None, IndexNumber = None,
       Artists = None, AlbumArtist = None, Album = None \<rparr>"

definition photo_play_state :: jf_play_state where
  "photo_play_state = \<lparr> PositionTicks = Some 0, IsPaused = Some False \<rparr>"

definition photo_session :: jf_session where
  "photo_session = \<lparr> NowPlayingItem = Some photo_item, PlayState = Some photo_play_state \<rparr>"

definition photo_fetch :: "jf_body fetch" where
  "photo_fetch =
     (\<lambda>url headers. Inr \<lparr> ok = True, status = 200, json = Inr (Sessions [photo_session]) \<rparr>)"

definition photo_media :: MediaData where
  "photo_media =
     \<lparr> title = Some ''Beach'', mtype = PHOTO, progress = None, isPaused = Some False,
       imageUrl = None, duration = None, position = None, series = None, season = None,
       episode = None, year = None, studio = None, artist = None, albumTitle = None,
       albumArtist = None, photographer = None \<rparr>"







text \<open>The example session paused, and the example run while a game is shown in the presence store.\<close>

definition paused_session :: jf_session where
  "paused_session =
     \<lparr> NowPlayingItem = Some example_item,
       PlayState = Some \<lparr> PositionTicks = Some 25000000, IsPaused = Some True \<rparr> \<rparr>"

definition paused_env :: poll_env where
  "paused_env =
     example_env \<lparr> fetch_jellyfin :=
       (\<lambda>url headers. Inr \<lparr> ok = True, status = 200, json = Inr (Sessions [paused_session]) \<rparr>) \<rparr>"

definition busy_env :: poll_env where
  "busy_env =
     example_env \<lparr> store := example_settings \<lparr> hideWhenOtherActivity := True \<rparr>,
                   getActivities := [\<lparr> store_application_id = Some ''356875570916753438'' \<rparr>] \<rparr>"

section \<open>Properties\<close>

subsection \<open>Auxiliary facts\<close>

lemma thenE_Inr_iff: "thenE r k = Inr v \<longleftrightarrow> (\<exists>x. r = Inr x \<and> k x = Inr v)"
  by (cases r) (simp_all add: thenE_def)

lemma floor_rat_numeral: "\<lfloor>(numeral a :: rat) / numeral b\<rfloor> = numeral a div numeral b"
  by (metis floor_divide_of_int_eq of_int_numeral)

lemma floor_rat_neg_numeral:
  "\<lfloor>- ((numeral a :: rat) / numeral b)\<rfloor> = - numeral a div numeral b"
  by (metis divide_minus_left floor_divide_of_int_eq of_int_neg_numeral of_int_numeral)

text \<open>The equations that evaluate the model on numerals.\<close>

lemmas eval_defs =
  floor_rat_numeral floor_rat_neg_numeral fl_def ulp_def binade_def bits.simps
  round_ties_even_def js_div_def js_mul_def Let_def
  thenE_def try_catch_def truthy_str_def truthy_num_def truthy_bool_def
  toLowerCase_def lower_char_def tmpl_def percent_def Math_round_def Math_floor_def toMs_def

subsection \<open>Rounding to a double\<close>

lemma bits_upper: "n < 2 ^ bits n"
proof (induction n rule: bits.induct)
  case (1 n)
  show ?case
  proof (cases "n < 1")
    case True
    then show ?thesis by (subst bits.simps) simp
  next
    case False
    with 1 have "n div 2 < 2 ^ bits (n div 2)" by simp
    then have "n < 2 * 2 ^ bits (n div 2)" by linarith
    with False show ?thesis by (subst bits.simps) simp
  qed
qed

lemma bits_lower: "0 < n \<Longrightarrow> 2 ^ (bits n - 1) \<le> n"
proof (induction n rule: bits.induct)
  case (1 n)
  then have n: "\<not> n < 1" by simp
  show ?case
  proof (cases "n div 2 = 0")
    case True
    then have "bits (n div 2) = 0" by (subst bits.simps) simp
    with n have "bits n = 1" by (subst bits.simps) simp
    with 1 show ?thesis by simp
  next
    case False
    with 1 n have ih: "2 ^ (bits (n div 2) - 1) \<le> n div 2" by simp
    from False have "bits (n div 2) \<noteq> 0" by (subst bits.simps) simp
    then obtain b where b: "bits (n div 2) = Suc b" by (cases "bits (n div 2)") auto
    from n have "bits n = 1 + bits (n div 2)" by (subst bits.simps) simp
    with b ih have "bits n - 1 = Suc b" "2 ^ b \<le> n div 2" by simp_all
    then show ?thesis by simp
  qed
qed

lemma binade_le:
  assumes "0 < x"
  shows "2 powi (binade x) \<le> x"
proof (cases "1 \<le> x")
  case True
  define n where "n = nat \<lfloor>x\<rfloor>"
  from True have fl1: "1 \<le> \<lfloor>x\<rfloor>" by simp
  then have n0: "0 < n" by (simp add: n_def)
  from bits_lower [OF n0] have "(2::nat) ^ (bits n - 1) \<le> n" .
  then have "int ((2::nat) ^ (bits n - 1)) \<le> int n" by (simp only: of_nat_le_iff)
  then have "(2::int) ^ (bits n - 1) \<le> \<lfloor>x\<rfloor>" using fl1 by (simp add: n_def)
  then have "rat_of_int ((2::int) ^ (bits n - 1)) \<le> rat_of_int \<lfloor>x\<rfloor>" by (simp only: of_int_le_iff)
  also have "\<dots> \<le> x" by simp
  finally have le: "(2::rat) ^ (bits n - 1) \<le> x" by simp
  have "0 < bits n" using n0 by (subst bits.simps) simp
  then obtain b where b: "bits n = Suc b" by (cases "bits n") auto
  have "binade x = int (bits n) - 1" using True by (simp only: binade_def n_def if_True)
  with b have "binade x = int b" by simp
  with le b show ?thesis by simp
next
  case False
  define y where "y = 1 / x"
  define m where "m = nat (- \<lfloor>- y\<rfloor> - 1)"
  from False assms have x1: "x < 1" by simp
  have y0: "0 < y" using assms by (simp add: y_def)
  have xy: "x * y = 1" using assms by (simp add: y_def)
  have y1: "1 < y"
  proof (rule ccontr)
    assume "\<not> 1 < y"
    then have "y \<le> 1" by simp
    then have "x * y \<le> x * 1" using assms by (intro mult_left_mono) simp_all
    with xy x1 show False by simp
  qed
  have cl: "- \<lfloor>- y\<rfloor> = \<lceil>y\<rceil>" by (simp add: ceiling_def)
  have yc: "y \<le> of_int \<lceil>y\<rceil>" by (rule le_of_int_ceiling)
  have "1 < \<lceil>y\<rceil>" using y1 by (simp add: less_ceiling_iff)
  then have m_eq: "int m = \<lceil>y\<rceil> - 1" by (simp add: m_def cl)
  from bits_upper [of m] have "int m < int (2 ^ bits m)" by (simp only: of_nat_less_iff)
  then have "\<lceil>y\<rceil> \<le> 2 ^ bits m" using m_eq by simp
  then have "rat_of_int \<lceil>y\<rceil> \<le> rat_of_int (2 ^ bits m)" by (simp only: of_int_le_iff)
  with yc have "y \<le> rat_of_int (2 ^ bits m)" by (rule order_trans)
  then have yb: "y \<le> 2 ^ bits m" by simp
  define P :: rat where "P = 2 ^ bits m"
  have P0: "0 < P" by (simp add: P_def)
  from yb have "x * y \<le> x * P" using assms by (intro mult_left_mono) (simp_all add: P_def)
  with xy have "1 \<le> x * P" by simp
  then have "1 / P \<le> x" using P0 by (simp add: divide_le_eq)
  moreover have "binade x = - int (bits m)" using False by (simp add: binade_def m_def y_def)
  ultimately show ?thesis by (simp add: power_int_minus_divide P_def)
qed

lemma binade_upper:
  assumes "0 < x"
  shows "x < 2 powi (binade x + 1)"
proof (cases "1 \<le> x")
  case True
  define n where "n = nat \<lfloor>x\<rfloor>"
  from True have fl1: "1 \<le> \<lfloor>x\<rfloor>" by simp
  then have n0: "0 < n" and n_eq: "int n = \<lfloor>x\<rfloor>" by (simp_all add: n_def)
  have "0 < bits n" using n0 by (subst bits.simps) simp
  then obtain b where b: "bits n = Suc b" by (cases "bits n") auto
  have "binade x = int (bits n) - 1" using True by (simp only: binade_def n_def if_True)
  with b have e: "binade x + 1 = int (bits n)" by simp
  from bits_upper [of n] have "int n < int (2 ^ bits n)" by (simp only: of_nat_less_iff)
  then have "\<lfloor>x\<rfloor> + 1 \<le> 2 ^ bits n" using n_eq by simp
  then have "rat_of_int (\<lfloor>x\<rfloor> + 1) \<le> rat_of_int (2 ^ bits n)" by (simp only: of_int_le_iff)
  moreover have "x < rat_of_int (\<lfloor>x\<rfloor> + 1)" using floor_correct [of x] by simp
  ultimately have "x < rat_of_int (2 ^ bits n)" by (rule less_le_trans [rotated])
  then have "x < 2 ^ bits n" by simp
  then show ?thesis by (simp add: e)
next
  case False
  define y where "y = 1 / x"
  define m where "m = nat (- \<lfloor>- y\<rfloor> - 1)"
  from False assms have x1: "x < 1" by simp
  have xy: "x * y = 1" using assms by (simp add: y_def)
  have y1: "1 < y"
  proof (rule ccontr)
    assume "\<not> 1 < y"
    then have "y \<le> 1" by simp
    then have "x * y \<le> x * 1" using assms by (intro mult_left_mono) simp_all
    with xy x1 show False by simp
  qed
  have cl: "- \<lfloor>- y\<rfloor> = \<lceil>y\<rceil>" by (simp add: ceiling_def)
  have "1 < \<lceil>y\<rceil>" using y1 by (simp add: less_ceiling_iff)
  then have m_eq: "int m = \<lceil>y\<rceil> - 1" and m0: "0 < m" by (simp_all add: m_def cl)
  have "0 < bits m" using m0 by (subst bits.simps) simp
  then obtain b where b: "bits m = Suc b" by (cases "bits m") auto
  from bits_lower [OF m0] b have "(2::nat) ^ b \<le> m" by simp
  then have "int ((2::nat) ^ b) \<le> int m" by (simp only: of_nat_le_iff)
  then have "(2::int) ^ b \<le> \<lceil>y\<rceil> - 1" using m_eq by simp
  then have "rat_of_int (2 ^ b) \<le> rat_of_int (\<lceil>y\<rceil> - 1)" by (simp only: of_int_le_iff)
  moreover have "rat_of_int (\<lceil>y\<rceil> - 1) < y" using ceiling_correct [of y] by simp
  ultimately have "rat_of_int (2 ^ b) < y" by (rule le_less_trans)
  then have pb: "(2::rat) ^ b < y" by simp
  define P :: rat where "P = 2 ^ b"
  have P0: "0 < P" by (simp add: P_def)
  from pb have "x * P < x * y" using assms by (simp add: P_def)
  with xy have "x * P < 1" by simp
  then have xP: "x < 1 / P" using P0 by (simp add: less_divide_eq)
  have "binade x = - int (bits m)" using False by (simp add: binade_def m_def y_def)
  with b have "binade x + 1 = - int b" by simp
  with xP show ?thesis by (simp add: power_int_minus_divide P_def)
qed

lemma binade_less:
  assumes "0 < x" "x < 2 powi m"
  shows "binade x < m"
proof (rule ccontr)
  assume "\<not> binade x < m"
  then have "m \<le> binade x" by simp
  then have "(2::rat) powi m \<le> 2 powi binade x" by (intro power_int_increasing) simp_all
  with binade_le [OF assms(1)] assms(2) show False by simp
qed

lemma rte_ge: "of_int k \<le> y \<Longrightarrow> k \<le> round_ties_even y"
proof -
  assume "of_int k \<le> y"
  then have "k \<le> \<lfloor>y\<rfloor>" by (simp add: le_floor_iff)
  then show ?thesis by (simp add: round_ties_even_def Let_def)
qed

lemma rte_less:
  assumes "y < of_int k - 1 / 2"
  shows "round_ties_even y < k"
proof -
  have f: "of_int \<lfloor>y\<rfloor> \<le> y" by simp
  with assms have "rat_of_int \<lfloor>y\<rfloor> < of_int k" by linarith
  then have fk: "\<lfloor>y\<rfloor> < k" by (simp only: of_int_less_iff)
  show ?thesis
  proof (cases "\<lfloor>y\<rfloor> + 1 < k")
    case True
    then show ?thesis by (simp add: round_ties_even_def Let_def)
  next
    case False
    with fk have eq: "\<lfloor>y\<rfloor> = k - 1" by simp
    with assms have "y - of_int \<lfloor>y\<rfloor> < 1 / 2" by simp
    with eq show ?thesis by (simp add: round_ties_even_def Let_def)
  qed
qed

lemma rte_le:
  assumes "y \<le> of_int k"
  shows "round_ties_even y \<le> k"
proof (cases "y = of_int k")
  case True
  then show ?thesis by (simp add: round_ties_even_def Let_def)
next
  case False
  with assms have "y < of_int k" by simp
  then have "\<lfloor>y\<rfloor> < k" by (simp add: floor_less_iff)
  then show ?thesis by (simp add: round_ties_even_def Let_def)
qed

text \<open>Below \<open>2^53\<close> the unit in the last place is \<open>1 / 2^j\<close>.\<close>

lemma ulp_small:
  assumes "0 < x" "x < 2 powi m" "m \<le> 53" "- 1021 \<le> m"
  shows "\<exists>j. ulp x = 1 / 2 ^ j \<and> 53 - m \<le> int j"
proof -
  from binade_less [OF assms(1,2)] have "binade x < m" .
  with assms(3,4) have e: "max (binade x) (- 1022) - 52 \<le> 0"
    and e2: "53 - m \<le> - (max (binade x) (- 1022) - 52)" by simp_all
  define j where "j = nat (- (max (binade x) (- 1022) - 52))"
  from e have "max (binade x) (- 1022) - 52 = - int j" by (simp add: j_def)
  then have "ulp x = 2 powi (- int j)" by (simp add: ulp_def)
  then have "ulp x = 1 / 2 ^ j" by (simp add: power_int_minus_divide)
  moreover from e2 e have "53 - m \<le> int j" by (simp add: j_def)
  ultimately show ?thesis by blast
qed

lemma fl_pos:
  "0 < x \<Longrightarrow> fl x = of_int (round_ties_even (x / ulp x)) * ulp x"
  by (simp add: fl_def)

lemma ulp_pos: "0 < ulp x"
  by (simp add: ulp_def power_int_def)

lemma fl_nonneg: "0 \<le> x \<Longrightarrow> 0 \<le> fl x"
proof (cases "x = 0")
  case True
  then show ?thesis by (simp add: fl_def)
next
  case False
  assume "0 \<le> x"
  with False have x: "0 < x" by simp
  then have "rat_of_int 0 \<le> x / ulp x" using ulp_pos [of x] by simp
  then have "0 \<le> round_ties_even (x / ulp x)" by (rule rte_ge)
  then show ?thesis using ulp_pos [of x] by (simp add: fl_pos [OF x])
qed

lemma fl_le_int:
  assumes "0 < x" "x \<le> of_int K" "x < 2 powi m" "m \<le> 53" "- 1021 \<le> m"
  shows "fl x \<le> of_int K"
proof -
  from ulp_small [OF assms(1,3,4,5)] obtain j where u: "ulp x = 1 / 2 ^ j" by blast
  have "x / ulp x = x * 2 ^ j" by (simp add: u)
  also have "\<dots> \<le> of_int K * 2 ^ j" using assms(2) by simp
  also have "\<dots> = of_int (K * 2 ^ j)" by simp
  finally have "round_ties_even (x / ulp x) \<le> K * 2 ^ j" by (rule rte_le)
  then have "rat_of_int (round_ties_even (x / ulp x)) \<le> rat_of_int (K * 2 ^ j)"
    by (simp only: of_int_le_iff)
  then have "rat_of_int (round_ties_even (x / ulp x)) * ulp x \<le> rat_of_int (K * 2 ^ j) * ulp x"
    using ulp_pos [of x] by (simp only: mult_le_cancel_right_pos)
  also have "\<dots> = of_int K" by (simp add: u)
  finally show ?thesis by (simp add: fl_pos [OF assms(1)])
qed

lemma fl_ge_int:
  assumes "0 < x" "of_int K \<le> x" "x < 2 powi m" "m \<le> 53" "- 1021 \<le> m"
  shows "of_int K \<le> fl x"
proof -
  from ulp_small [OF assms(1,3,4,5)] obtain j where u: "ulp x = 1 / 2 ^ j" by blast
  have "rat_of_int (K * 2 ^ j) = of_int K * 2 ^ j" by simp
  also have "\<dots> \<le> x * 2 ^ j" using assms(2) by simp
  also have "\<dots> = x / ulp x" by (simp add: u)
  finally have "K * 2 ^ j \<le> round_ties_even (x / ulp x)" by (rule rte_ge)
  then have "rat_of_int (K * 2 ^ j) \<le> rat_of_int (round_ties_even (x / ulp x))"
    by (simp only: of_int_le_iff)
  then have "rat_of_int (K * 2 ^ j) * ulp x \<le> rat_of_int (round_ties_even (x / ulp x)) * ulp x"
    using ulp_pos [of x] by (simp only: mult_le_cancel_right_pos)
  moreover have "rat_of_int (K * 2 ^ j) * ulp x = of_int K" by (simp add: u)
  ultimately have "of_int K \<le> rat_of_int (round_ties_even (x / ulp x)) * ulp x"
    by (simp only:)
  then show ?thesis by (simp only: fl_pos [OF assms(1)])
qed

text \<open>An integer below \<open>2^53\<close> is a double.\<close>

lemma fl_int_exact:
  assumes "0 \<le> k" "k < 2 ^ 53"
  shows "fl (of_int k) = of_int k"
proof (cases "k = 0")
  case True
  then show ?thesis by (simp add: fl_def)
next
  case False
  with assms have k0: "(0::rat) < of_int k" by simp
  have "rat_of_int k < rat_of_int (2 ^ 53)" using assms(2) by (simp only: of_int_less_iff)
  then have k53: "rat_of_int k < 2 powi 53" by simp
  have "fl (of_int k) \<le> of_int k" by (rule fl_le_int [OF k0 _ k53]) simp_all
  moreover have "of_int k \<le> fl (of_int k)" by (rule fl_ge_int [OF k0 _ k53]) simp_all
  ultimately show ?thesis by simp
qed

text \<open>
  Below \<open>2^53\<close> ticks the rounded quotient by 10000 stays in the unit interval of the
  exact one: its error is at most \<open>2^(-14)\<close>, less than the \<open>1/10000\<close> that separates a
  quotient of integers from the next integer.
\<close>

lemma floor_js_div_10000:
  assumes "0 \<le> t" "t < 2 ^ 53"
  shows "\<lfloor>js_div (of_int t) 10000\<rfloor> = t div 10000"
proof (cases "t = 0")
  case True
  then show ?thesis by (simp add: js_div_def fl_def)
next
  case False
  define x :: rat where "x = of_int t / 10000"
  define k where "k = t div 10000"
  define r where "r = t mod 10000"
  from False assms have t0: "0 < t" by simp
  then have x0: "0 < x" by (simp add: x_def)
  have t_eq: "t = k * 10000 + r" by (simp add: k_def r_def)
  have r_bounds: "0 \<le> r" "r \<le> 9999" by (simp_all add: r_def) 
  have x_eq: "x = of_int k + of_int r / 10000" by (simp add: x_def t_eq)
  have kx: "of_int k \<le> x" using r_bounds by (simp add: x_eq)
  have xk: "x \<le> of_int k + 9999 / 10000" using r_bounds by (simp add: x_eq)
  have "rat_of_int t < rat_of_int (2 ^ 53)" using assms(2) by (simp only: of_int_less_iff)
  then have "x < 2 ^ 53 / 10000" by (simp add: x_def)
  also have "\<dots> < (2::rat) ^ 40" by simp
  finally have x40: "x < 2 powi 40" by simp
  from ulp_small [OF x0 x40] obtain j where u: "ulp x = 1 / 2 ^ j" and j: "13 \<le> int j"
    by auto
  define y where "y = x / ulp x"
  have y_eq: "y = x * 2 ^ j" by (simp add: y_def u)
  have lo: "of_int k \<le> fl x" by (rule fl_ge_int [OF x0 kx x40]) simp_all
  from j have "13 \<le> j" by simp
  then have "(2::rat) ^ 13 \<le> 2 ^ j" by (intro power_increasing) simp_all
  then have pj: "(8192::rat) \<le> 2 ^ j" by simp
  have "(of_int (k + 1) - x) * 2 ^ j \<ge> (1 / 10000) * 2 ^ j"
    using xk by (intro mult_right_mono) simp_all
  moreover have "(1 / 10000) * (2::rat) ^ j > 1 / 2" using pj by simp
  ultimately have "1 / 2 < (of_int (k + 1) - x) * 2 ^ j" by linarith
  then have "y < of_int (k + 1) * 2 ^ j - 1 / 2" by (simp add: y_eq algebra_simps)
  then have "y < of_int ((k + 1) * 2 ^ j) - 1 / 2" by simp
  then have "round_ties_even y < (k + 1) * 2 ^ j" by (rule rte_less)
  then have "rat_of_int (round_ties_even y) < rat_of_int ((k + 1) * 2 ^ j)"
    by (simp only: of_int_less_iff)
  then have "rat_of_int (round_ties_even y) * ulp x < rat_of_int ((k + 1) * 2 ^ j) * ulp x"
    using ulp_pos [of x] by (simp only: mult_less_cancel_right_pos)
  moreover have "rat_of_int ((k + 1) * 2 ^ j) * ulp x = of_int (k + 1)" by (simp add: u)
  ultimately have "rat_of_int (round_ties_even y) * ulp x < of_int (k + 1)" by (simp only:)
  then have hi: "fl x < of_int k + 1" by (simp add: fl_pos [OF x0] y_def)
  from lo hi have "\<lfloor>fl x\<rfloor> = k" by (simp add: floor_unique)
  then show ?thesis by (simp add: js_div_def x_def k_def)
qed

lemma js_percent_range:
  assumes "0 \<le> p" "p \<le> d" "0 < d"
  shows "0 \<le> \<lfloor>js_mul (js_div (of_int p) (of_int d)) 100 + 1 / 2\<rfloor>
         \<and> \<lfloor>js_mul (js_div (of_int p) (of_int d)) 100 + 1 / 2\<rfloor> \<le> 100"
proof -
  define x :: rat where "x = of_int p / of_int d"
  define q where "q = fl x"
  define z where "z = fl (q * 100)"
  have d: "(0::rat) < of_int d" using assms by simp
  have x0: "0 \<le> x" using assms by (simp add: x_def)
  have "(of_int p :: rat) \<le> of_int d" using assms by simp
  then have x1: "x \<le> 1" using d by (simp add: x_def divide_le_eq)
  have q0: "0 \<le> q" unfolding q_def by (rule fl_nonneg [OF x0])
  have q1: "q \<le> 1"
  proof (cases "x = 0")
    case True
    then show ?thesis by (simp add: q_def fl_def)
  next
    case False
    with x0 have xp: "0 < x" by simp
    have "x < 2 powi 1" using x1 by simp
    from fl_le_int [OF xp _ this, of 1] x1 show ?thesis by (simp add: q_def)
  qed
  have w0: "0 \<le> q * 100" using q0 by simp
  have w1: "q * 100 \<le> 100" using q1 by simp
  have z0: "0 \<le> z" unfolding z_def by (rule fl_nonneg [OF w0])
  have z1: "z \<le> 100"
  proof (cases "q * 100 = 0")
    case True
    then show ?thesis by (simp add: z_def fl_def)
  next
    case False
    with w0 have wp: "0 < q * 100" by simp
    have "q * 100 < 2 powi 7" using w1 by simp
    from fl_le_int [OF wp _ this, of 100] w1 show ?thesis by (simp add: z_def)
  qed
  have lo: "0 \<le> \<lfloor>z + 1 / 2\<rfloor>" using z0 by simp
  have "z + 1 / 2 < of_int 101" using z1 by simp
  then have "\<lfloor>z + 1 / 2\<rfloor> < 101" by (simp only: floor_less_iff)
  then have hi: "\<lfloor>z + 1 / 2\<rfloor> \<le> 100" by simp
  from lo hi show ?thesis by (simp add: z_def q_def x_def js_mul_def js_div_def)
qed

lemma toMs_exact: "0 \<le> ticks \<Longrightarrow> ticks < 2 ^ 53 \<Longrightarrow> toMs ticks = ticks div 10000"
  by (simp add: toMs_def Math_floor_def floor_js_div_10000)

lemma percent_range:
  assumes "0 \<le> p" "p \<le> d" "0 < d"
  shows "\<exists>n. percent (Some p) d = Num n \<and> 0 \<le> n \<and> n \<le> 100"
  using js_percent_range [OF assms] by (simp add: percent_def Math_round_def)

text \<open>
  The two roundings are visible: \<open>290000 / 2000000\<close> is \<open>0.145\<close>, the product of the
  nearest double with 100 is just below \<open>14.5\<close>, and the progress is 14, not 15.
\<close>

lemma percent_rounds_doubles: "percent (Some 290000) 2000000 = Num 14"
  by (simp add: eval_defs)

subsection \<open>Decimal rendering and the episode label\<close>

lemma length_dec_nat_small: "n < 10 \<Longrightarrow> length (dec_nat n) = 1"
  by (simp add: dec_nat.simps)

lemma length_dec_nat_pos: "Suc 0 \<le> length (dec_nat n)"
  by (subst dec_nat.simps) simp

lemma length_dec_nat_large: "10 \<le> n \<Longrightarrow> 2 \<le> length (dec_nat n)"
proof -
  assume "10 \<le> n"
  then have "dec_nat n = dec_nat (n div 10) @ [digit_char (n mod 10)]"
    by (subst dec_nat.simps) simp
  moreover have "Suc 0 \<le> length (dec_nat (n div 10))"
    by (rule length_dec_nat_pos)
  ultimately show ?thesis by simp
qed

lemma pad_two_digits: "pad n = spec_two_digits n"
proof (cases "0 \<le> n \<and> n < 10")
  case True
  then have "nat n < 10" by linarith
  then have "length (dec_nat (nat n)) = 1"
    by (rule length_dec_nat_small)
  with True show ?thesis
    by (simp add: pad_def spec_two_digits_def padStart_def numToString_def)
next
  case False
  then consider "n < 0" | "10 \<le> n" by linarith
  then have "2 \<le> length (numToString n)"
  proof cases
    case 1
    have "Suc 0 \<le> length (dec_nat (nat (- n)))" by (rule length_dec_nat_pos)
    with 1 show ?thesis by (simp add: numToString_def)
  next
    case 2
    then have "10 \<le> nat n" by linarith
    then have "2 \<le> length (dec_nat (nat n))"
      by (rule length_dec_nat_large)
    with 2 show ?thesis by (simp add: numToString_def)
  qed
  with False show ?thesis
    by (simp add: pad_def spec_two_digits_def padStart_def)
qed

text \<open>
  C6. \<^verbatim>\<open>formatEpisodeNumber\<close> returns the empty string when the season or the episode is
  missing or zero; otherwise it returns \<^verbatim>\<open>Season {s} Episode {e}\<close> for the natural format,
  \<^verbatim>\<open>S{ss}E{ee}\<close> with both numbers zero-padded to two digits for the short format and
  \<^verbatim>\<open>{s}x{ee}\<close> with only the episode padded for the minimal format. The format is read
  from the settings store.
\<close>

theorem formatEpisodeNumber_spec:
  "formatEpisodeNumber st season_arg episode_arg =
     (if season_arg = None \<or> season_arg = Some 0 \<or> episode_arg = None \<or> episode_arg = Some 0
      then ''''
      else spec_episode_label (episodeFormat st) (the season_arg) (the episode_arg))"
  by (cases season_arg; cases episode_arg; cases "episodeFormat st")
     (simp_all add: formatEpisodeNumber_def spec_episode_label_def pad_two_digits)

text \<open>
  The examples of C6: \<open>(1, 2)\<close> in the three formats, and \<open>(0, 5)\<close> and \<open>(1, 0)\<close> in
  each of them.
\<close>

theorem formatEpisodeNumber_examples:
  "formatEpisodeNumber (example_settings \<lparr> episodeFormat := SHORT \<rparr>) (Some 1) (Some 2) = ''S01E02''
   \<and> formatEpisodeNumber (example_settings \<lparr> episodeFormat := MINIMAL \<rparr>) (Some 1) (Some 2) = ''1x02''
   \<and> formatEpisodeNumber (example_settings \<lparr> episodeFormat := NATURAL \<rparr>) (Some 1) (Some 2)
       = ''Season 1 Episode 2''
   \<and> formatEpisodeNumber (example_settings \<lparr> episodeFormat := SHORT \<rparr>) (Some 0) (Some 5) = []
   \<and> formatEpisodeNumber (example_settings \<lparr> episodeFormat := MINIMAL \<rparr>) (Some 0) (Some 5) = []
   \<and> formatEpisodeNumber (example_settings \<lparr> episodeFormat := NATURAL \<rparr>) (Some 0) (Some 5) = []
   \<and> formatEpisodeNumber (example_settings \<lparr> episodeFormat := SHORT \<rparr>) (Some 1) (Some 0) = []
   \<and> formatEpisodeNumber (example_settings \<lparr> episodeFormat := MINIMAL \<rparr>) (Some 1) (Some 0) = []
   \<and> formatEpisodeNumber (example_settings \<lparr> episodeFormat := NATURAL \<rparr>) (Some 1) (Some 0) = []
   \<and> formatEpisodeNumber (example_settings \<lparr> episodeFormat := SHORT \<rparr>) None (Some 5) = []
   \<and> formatEpisodeNumber (example_settings \<lparr> episodeFormat := SHORT \<rparr>) (Some 12) (Some 105)
       = ''S12E105''"
  using formatEpisodeNumber_spec [of "example_settings \<lparr> episodeFormat := SHORT \<rparr>" "Some 1" "Some 2"]
        formatEpisodeNumber_spec [of "example_settings \<lparr> episodeFormat := MINIMAL \<rparr>" "Some 1" "Some 2"]
        formatEpisodeNumber_spec [of "example_settings \<lparr> episodeFormat := NATURAL \<rparr>" "Some 1" "Some 2"]
        formatEpisodeNumber_spec [of "example_settings \<lparr> episodeFormat := SHORT \<rparr>" "Some 0" "Some 5"]
        formatEpisodeNumber_spec [of "example_settings \<lparr> episodeFormat := MINIMAL \<rparr>" "Some 0" "Some 5"]
        formatEpisodeNumber_spec [of "example_settings \<lparr> episodeFormat := NATURAL \<rparr>" "Some 0" "Some 5"]
        formatEpisodeNumber_spec [of "example_settings \<lparr> episodeFormat := SHORT \<rparr>" "Some 1" "Some 0"]
        formatEpisodeNumber_spec [of "example_settings \<lparr> episodeFormat := MINIMAL \<rparr>" "Some 1" "Some 0"]
        formatEpisodeNumber_spec [of "example_settings \<lparr> episodeFormat := NATURAL \<rparr>" "Some 1" "Some 0"]
        formatEpisodeNumber_spec [of "example_settings \<lparr> episodeFormat := SHORT \<rparr>" "None" "Some 5"]
        formatEpisodeNumber_spec [of "example_settings \<lparr> episodeFormat := SHORT \<rparr>" "Some 12" "Some 105"]
  by (simp add: spec_episode_label_def spec_two_digits_def numToString_def dec_nat.simps digit_char_def)

subsection \<open>What a successful adapter run returns\<close>

lemma jf_variant_keeps:
  "mtype (jf_variant item b) = mtype b"
  "progress (jf_variant item b) = progress b"
  "duration (jf_variant item b) = duration b"
  "position (jf_variant item b) = position b"
  "isPaused (jf_variant item b) = isPaused b"
  "title (jf_variant item b) = title b"
  "photographer (jf_variant item b) = photographer b"
  by (simp_all add: jf_variant_def split: MediaType.splits)

lemma jf_baseData_InrD:
  assumes "jf_baseData url key item playState = Inr b"
  shows "\<exists>ps. playState = Some ps
          \<and> jf_getMediaType (Type item) = Inr (mtype b)
          \<and> progress b = (if truthy_num (RunTimeTicks item)
                           then Some (percent (PositionTicks ps) (the (RunTimeTicks item)))
                           else None)
          \<and> duration b = (if truthy_num (RunTimeTicks item)
                           then Some (toMs (the (RunTimeTicks item))) else None)
          \<and> position b = (if truthy_num (PositionTicks ps)
                           then Some (toMs (the (PositionTicks ps))) else None)
          \<and> isPaused b = IsPaused ps \<and> title b = Name item
          \<and> series b = None \<and> season b = None \<and> episode b = None
          \<and> artist b = None \<and> albumArtist b = None \<and> albumTitle b = None
          \<and> photographer b = None"
  using assms
  unfolding jf_baseData_def thenE_Inr_iff
  by (cases playState) (auto split: if_splits)

lemma jf_media_InrD:
  assumes "jf_media url key s = Inr m"
  shows "\<exists>item b. NowPlayingItem s = Some item
           \<and> jf_baseData url key item (PlayState s) = Inr b \<and> m = jf_variant item b"
  using assms
  by (cases "NowPlayingItem s") (auto simp: jf_media_def thenE_Inr_iff)

lemma fetchJellyfinData_SomeD:
  assumes "fetchJellyfinData st f = Inr (Some m)"
  shows "truthy_str (serverUrl st) \<and> truthy_str (apiKey st)
         \<and> (\<exists>s. jf_playingSession (the (serverUrl st)) (the (apiKey st)) f = Inr (Some s)
                \<and> jf_media (the (serverUrl st)) (the (apiKey st)) s = Inr m)"
  using assms
  unfolding fetchJellyfinData_def fetchJellyfinData_try_def try_catch_def
  by (auto simp: thenE_Inr_iff split: if_splits sum.splits option.splits)

lemma plex_variant_keeps:
  "mtype (plex_variant session b) = mtype b"
  "progress (plex_variant session b) = progress b"
  "duration (plex_variant session b) = duration b"
  "position (plex_variant session b) = position b"
  "isPaused (plex_variant session b) = isPaused b"
  "title (plex_variant session b) = title b"
  by (simp_all add: plex_variant_def split: MediaType.splits)

lemma plex_baseData_InrD:
  assumes "plex_baseData url key session = Inr b"
  shows "plex_getMediaType (px_type session) = Inr (mtype b)
          \<and> progress b = (if truthy_num (px_duration session)
                           then Some (percent (px_viewOffset session) (the (px_duration session)))
                           else None)
          \<and> duration b = px_duration session
          \<and> position b = px_viewOffset session
          \<and> title b = px_title session
          \<and> series b = None \<and> season b = None \<and> episode b = None
          \<and> artist b = None \<and> albumArtist b = None \<and> albumTitle b = None
          \<and> photographer b = None"
  using assms
  unfolding plex_baseData_def thenE_Inr_iff
  by (cases "px_Player session") (auto split: if_splits)

lemma plex_media_InrD:
  assumes "plex_media url key session = Inr m"
  shows "\<exists>b. plex_baseData url key session = Inr b \<and> m = plex_variant session b"
  using assms by (auto simp: plex_media_def thenE_Inr_iff)

lemma fetchPlexData_SomeD:
  assumes "fetchPlexData st f = Inr (Some m)"
  shows "truthy_str (serverUrl st) \<and> truthy_str (apiKey st)
         \<and> (\<exists>s. plex_firstSession (the (serverUrl st)) (the (apiKey st)) f = Inr (Some s)
                \<and> plex_media (the (serverUrl st)) (the (apiKey st)) s = Inr m)"
  using assms
  unfolding fetchPlexData_def fetchPlexData_try_def try_catch_def
  by (auto simp: thenE_Inr_iff split: if_splits sum.splits option.splits)

subsection \<open>The adapters on the example inputs\<close>

lemma example_jf_playing:
  "jf_playingSession ''http://media.local'' ''key'' example_jf_fetch = Inr (Some example_session)"
  by (simp add: jf_playingSession_def example_jf_fetch_def idle_session_def example_session_def
        thenE_def)

lemma example_jf_media:
  "jf_media ''http://media.local'' ''key'' example_session = Inr example_media"
  by (simp add: jf_media_def jf_baseData_def jf_variant_def jf_getMediaType_def
        example_session_def example_item_def example_play_state_def example_media_def eval_defs)

lemma example_jf_result:
  "fetchJellyfinData example_settings example_jf_fetch = Inr (Some example_media)"
  by (simp add: fetchJellyfinData_def fetchJellyfinData_try_def example_settings_def
        example_jf_playing example_jf_media thenE_def try_catch_def truthy_str_def)

lemma example_plex_first:
  "plex_firstSession ''http://media.local'' ''key'' example_plex_fetch
     = Inr (Some example_plex_session)"
  by (simp add: plex_firstSession_def example_plex_fetch_def thenE_def)

lemma example_plex_media_eq:
  "plex_media ''http://media.local'' ''key'' example_plex_session = Inr example_plex_media"
  by (simp add: plex_media_def plex_baseData_def plex_variant_def plex_getMediaType_def or_str_def
        example_plex_session_def example_plex_media_def eval_defs)

lemma example_plex_result:
  "fetchPlexData example_settings example_plex_fetch = Inr (Some example_plex_media)"
  by (simp add: fetchPlexData_def fetchPlexData_try_def example_settings_def
        example_plex_first example_plex_media_eq thenE_def try_catch_def truthy_str_def)

lemma photo_jf_playing:
  "jf_playingSession ''http://media.local'' ''key'' photo_fetch = Inr (Some photo_session)"
  by (simp add: jf_playingSession_def photo_fetch_def photo_session_def thenE_def)

lemma photo_jf_media:
  "jf_media ''http://media.local'' ''key'' photo_session = Inr photo_media"
  by (simp add: jf_media_def jf_baseData_def jf_variant_def jf_getMediaType_def
        photo_session_def photo_item_def photo_play_state_def photo_media_def eval_defs)

lemma photo_jf_result:
  "fetchJellyfinData example_settings photo_fetch = Inr (Some photo_media)"
  by (simp add: fetchJellyfinData_def fetchJellyfinData_try_def example_settings_def
        photo_jf_playing photo_jf_media thenE_def try_catch_def truthy_str_def)

subsection \<open>Ticks and milliseconds\<close>

lemma jf_media_success:
  assumes "NowPlayingItem s = Some item" "PlayState s = Some ps" "Type item = Some ty"
  shows "\<exists>m. jf_media url key s = Inr m"
  using assms by (simp add: jf_media_def jf_baseData_def jf_getMediaType_def thenE_def)

lemma fetchJellyfinData_success:
  assumes "truthy_str (serverUrl st)" "truthy_str (apiKey st)"
    "jf_playingSession (the (serverUrl st)) (the (apiKey st)) f = Inr (Some s)"
    "jf_media (the (serverUrl st)) (the (apiKey st)) s = Inr m"
  shows "fetchJellyfinData st f = Inr (Some m)"
  using assms
  by (simp add: fetchJellyfinData_def fetchJellyfinData_try_def try_catch_def thenE_def)

text \<open>
  C9, amended. For every tick count from 0 up to, but not including, \<open>2^53\<close>, \<^verbatim>\<open>toMs\<close>
  (\<^verbatim>\<open>Math.floor(ticks / 10000)\<close>, a division of doubles) is the integer floor division by
  10000; 50,000,000 ticks are 5,000 ms. For a session with a type and a play state the
  Jellyfin adapter returns a \<^verbatim>\<open>MediaData\<close> whose duration is \<^verbatim>\<open>toMs\<close> of \<^verbatim>\<open>RunTimeTicks\<close> and
  whose position is \<^verbatim>\<open>toMs\<close> of \<^verbatim>\<open>PositionTicks\<close> when the count is not zero; a count that is
  zero or missing leaves the field undefined.
\<close>

theorem toMs_floor_div:
  "(0 \<le> ticks \<and> ticks < 2 ^ 53 \<longrightarrow> toMs ticks = ticks div 10000)
   \<and> toMs 50000000 = 5000
   \<and> (truthy_str (serverUrl st) \<and> truthy_str (apiKey st)
      \<and> jf_playingSession (the (serverUrl st)) (the (apiKey st)) jf = Inr (Some s)
      \<and> NowPlayingItem s = Some item \<and> PlayState s = Some ps \<and> Type item = Some ty \<longrightarrow>
        (\<exists>m. fetchJellyfinData st jf = Inr (Some m)
           \<and> duration m = (case RunTimeTicks item of
                             None \<Rightarrow> None
                           | Some t \<Rightarrow> if t = 0 then None else Some (toMs t))
           \<and> position m = (case PositionTicks ps of
                             None \<Rightarrow> None
                           | Some t \<Rightarrow> if t = 0 then None else Some (toMs t))))"
proof (intro conjI impI)
  assume "0 \<le> ticks \<and> ticks < 2 ^ 53"
  then show "toMs ticks = ticks div 10000" by (simp add: toMs_exact)
next
  show "toMs 50000000 = 5000" by (simp add: toMs_exact)
next
  assume a: "truthy_str (serverUrl st) \<and> truthy_str (apiKey st)
      \<and> jf_playingSession (the (serverUrl st)) (the (apiKey st)) jf = Inr (Some s)
      \<and> NowPlayingItem s = Some item \<and> PlayState s = Some ps \<and> Type item = Some ty"
  then obtain m where jm: "jf_media (the (serverUrl st)) (the (apiKey st)) s = Inr m"
    using jf_media_success [of s item ps ty] by blast
  with a have res: "fetchJellyfinData st jf = Inr (Some m)"
    using fetchJellyfinData_success [of st jf s m] by blast
  from jm a obtain b where
    b: "jf_baseData (the (serverUrl st)) (the (apiKey st)) item (Some ps) = Inr b"
    and m: "m = jf_variant item b"
    using jf_media_InrD by fastforce
  from jf_baseData_InrD [OF b]
  have dur: "duration m = (if truthy_num (RunTimeTicks item)
                           then Some (toMs (the (RunTimeTicks item))) else None)"
   and pos: "position m = (if truthy_num (PositionTicks ps)
                           then Some (toMs (the (PositionTicks ps))) else None)"
    by (simp_all add: m jf_variant_keeps)
  have "duration m = (case RunTimeTicks item of
                        None \<Rightarrow> None
                      | Some t \<Rightarrow> if t = 0 then None else Some (toMs t))"
    by (simp add: dur truthy_num_def split: option.splits)
  moreover have "position m = (case PositionTicks ps of
                        None \<Rightarrow> None
                      | Some t \<Rightarrow> if t = 0 then None else Some (toMs t))"
    by (simp add: pos truthy_num_def split: option.splits)
  ultimately show "\<exists>m. fetchJellyfinData st jf = Inr (Some m)
           \<and> duration m = (case RunTimeTicks item of
                             None \<Rightarrow> None
                           | Some t \<Rightarrow> if t = 0 then None else Some (toMs t))
           \<and> position m = (case PositionTicks ps of
                             None \<Rightarrow> None
                           | Some t \<Rightarrow> if t = 0 then None else Some (toMs t))"
    using res by blast
qed

text \<open>
  The adapter on the example session (50,000,000 and 25,000,000 ticks) and on the photo
  session (no run time, position 0).
\<close>

theorem toMs_floor_div_witness:
  "toMs 50000000 = 5000
   \<and> 50000000 div 10000 = (5000::int)
   \<and> map_sum id (map_option duration) (fetchJellyfinData example_settings example_jf_fetch)
       = Inr (Some (Some 5000))
   \<and> map_sum id (map_option position) (fetchJellyfinData example_settings example_jf_fetch)
       = Inr (Some (Some 2500))
   \<and> map_sum id (map_option duration) (fetchJellyfinData example_settings photo_fetch)
       = Inr (Some None)
   \<and> map_sum id (map_option position) (fetchJellyfinData example_settings photo_fetch)
       = Inr (Some None)"
proof -
  have cfg: "truthy_str (serverUrl example_settings) \<and> truthy_str (apiKey example_settings)"
    "the (serverUrl example_settings) = ''http://media.local''"
    "the (apiKey example_settings) = ''key''"
    by (simp_all add: example_settings_def truthy_str_def)
  have ms: "toMs 50000000 = 5000" "toMs 25000000 = 2500"
    using toMs_floor_div [of 50000000] toMs_floor_div [of 25000000] by simp_all
  from toMs_floor_div [of 0 example_settings example_jf_fetch example_session example_item
         example_play_state "''Episode''"] cfg example_jf_playing
  obtain m where m: "fetchJellyfinData example_settings example_jf_fetch = Inr (Some m)"
    "duration m = Some (toMs 50000000)" "position m = Some (toMs 25000000)"
    by (auto simp: example_session_def example_item_def example_play_state_def)
  from toMs_floor_div [of 0 example_settings photo_fetch photo_session photo_item
         photo_play_state "''Photo''"] cfg photo_jf_playing
  obtain m' where m': "fetchJellyfinData example_settings photo_fetch = Inr (Some m')"
    "duration m' = None" "position m' = None"
    by (auto simp: photo_session_def photo_item_def photo_play_state_def)
  show ?thesis by (simp add: m m' ms)
qed

text \<open>
  C9 as stated fails from \<open>2^53\<close> ticks on. 200,000,000,000,009,984 is a double; its exact
  quotient by 10000 ends in .9984 and lies closer to the double 20,000,000,000,001 than
  to the one below, so that is what the division returns and \<^verbatim>\<open>Math.floor\<close> keeps.
\<close>

theorem toMs_beyond_2_53:
  "fl 200000000000009984 = 200000000000009984
   \<and> toMs 200000000000009984 = 20000000000001
   \<and> 200000000000009984 div 10000 = (20000000000000::int)"
  by (simp add: eval_defs)

subsection \<open>The range of the progress\<close>

text \<open>
  C1, amended. For the output of either adapter: when the duration of the source (Jellyfin
  \<^verbatim>\<open>RunTimeTicks\<close>, Plex \<^verbatim>\<open>duration\<close>) is zero or missing, \<^verbatim>\<open>progress\<close> is absent, so
  nothing is divided by zero; when the duration is positive and the position of the source
  is present and lies between 0 and the duration, \<^verbatim>\<open>progress\<close> is an integer in [0,100].
\<close>

theorem progress_range:
  "(fetchJellyfinData st jf = Inr (Some m)
      \<and> jf_playingSession (the (serverUrl st)) (the (apiKey st)) jf = Inr (Some s)
      \<and> NowPlayingItem s = Some item \<and> PlayState s = Some ps \<longrightarrow>
        (RunTimeTicks item = None \<or> RunTimeTicks item = Some 0 \<longrightarrow> progress m = None)
      \<and> (\<forall>d p. RunTimeTicks item = Some d \<and> PositionTicks ps = Some p
                 \<and> 0 \<le> p \<and> p \<le> d \<and> 0 < d \<longrightarrow>
               (\<exists>n. progress m = Some (Num n) \<and> 0 \<le> n \<and> n \<le> 100)))
   \<and> (fetchPlexData st pf = Inr (Some m')
      \<and> plex_firstSession (the (serverUrl st)) (the (apiKey st)) pf = Inr (Some x) \<longrightarrow>
        (px_duration x = None \<or> px_duration x = Some 0 \<longrightarrow> progress m' = None)
      \<and> (\<forall>d p. px_duration x = Some d \<and> px_viewOffset x = Some p
                 \<and> 0 \<le> p \<and> p \<le> d \<and> 0 < d \<longrightarrow>
               (\<exists>n. progress m' = Some (Num n) \<and> 0 \<le> n \<and> n \<le> 100)))"
proof (intro conjI impI)
  assume a: "fetchJellyfinData st jf = Inr (Some m)
      \<and> jf_playingSession (the (serverUrl st)) (the (apiKey st)) jf = Inr (Some s)
      \<and> NowPlayingItem s = Some item \<and> PlayState s = Some ps"
  then have "jf_media (the (serverUrl st)) (the (apiKey st)) s = Inr m"
    using fetchJellyfinData_SomeD [of st jf m] by auto
  with a obtain b where b: "jf_baseData (the (serverUrl st)) (the (apiKey st)) item (Some ps) = Inr b"
    and m: "m = jf_variant item b"
    using jf_media_InrD by fastforce
  have prog: "progress m = (if truthy_num (RunTimeTicks item)
                 then Some (percent (PositionTicks ps) (the (RunTimeTicks item))) else None)"
    using jf_baseData_InrD [OF b] by (simp add: m jf_variant_keeps)
  {
    assume "RunTimeTicks item = None \<or> RunTimeTicks item = Some 0"
    then show "progress m = None" by (auto simp: prog truthy_num_def)
  }
  show "\<forall>d p. RunTimeTicks item = Some d \<and> PositionTicks ps = Some p
                 \<and> 0 \<le> p \<and> p \<le> d \<and> 0 < d \<longrightarrow>
               (\<exists>n. progress m = Some (Num n) \<and> 0 \<le> n \<and> n \<le> 100)"
    using percent_range by (auto simp: prog truthy_num_def)
next
  assume a: "fetchPlexData st pf = Inr (Some m')
      \<and> plex_firstSession (the (serverUrl st)) (the (apiKey st)) pf = Inr (Some x)"
  then have "plex_media (the (serverUrl st)) (the (apiKey st)) x = Inr m'"
    using fetchPlexData_SomeD [of st pf m'] by auto
  then obtain b where b: "plex_baseData (the (serverUrl st)) (the (apiKey st)) x = Inr b"
    and m: "m' = plex_variant x b"
    using plex_media_InrD by blast
  have prog: "progress m' = (if truthy_num (px_duration x)
                 then Some (percent (px_viewOffset x) (the (px_duration x))) else None)"
    using plex_baseData_InrD [OF b] by (simp add: m plex_variant_keeps)
  {
    assume "px_duration x = None \<or> px_duration x = Some 0"
    then show "progress m' = None" by (auto simp: prog truthy_num_def)
  }
  show "\<forall>d p. px_duration x = Some d \<and> px_viewOffset x = Some p
                 \<and> 0 \<le> p \<and> p \<le> d \<and> 0 < d \<longrightarrow>
               (\<exists>n. progress m' = Some (Num n) \<and> 0 \<le> n \<and> n \<le> 100)"
    using percent_range by (auto simp: prog truthy_num_def)
qed

theorem progress_range_witness:
  "fetchJellyfinData example_settings example_jf_fetch = Inr (Some example_media)
   \<and> fetchPlexData example_settings example_plex_fetch = Inr (Some example_plex_media)
   \<and> (\<exists>n. progress example_media = Some (Num n) \<and> 0 \<le> n \<and> n \<le> 100)
   \<and> (\<exists>n. progress example_plex_media = Some (Num n) \<and> 0 \<le> n \<and> n \<le> 100)
   \<and> fetchJellyfinData example_settings photo_fetch = Inr (Some photo_media)
   \<and> RunTimeTicks photo_item = None
   \<and> progress photo_media = None"
  using progress_range [of example_settings example_jf_fetch example_media example_session
          example_item example_play_state example_plex_fetch example_plex_media
          example_plex_session]
        progress_range [of example_settings photo_fetch photo_media photo_session
          photo_item photo_play_state example_plex_fetch example_plex_media
          example_plex_session]
        example_jf_result example_jf_playing example_plex_result example_plex_first
        photo_jf_result photo_jf_playing
  by (simp add: example_settings_def example_session_def example_item_def
        example_play_state_def example_plex_session_def photo_session_def photo_item_def)

text \<open>Without a position the quotient is \<^verbatim>\<open>undefined / duration\<close>, which is not a number.\<close>

lemma percent_without_position: "percent None d = NaN"
  by (simp add: percent_def)

text \<open>
  C1 as stated fails: the adapter does not compare the position with the duration. A
  Jellyfin session that reports a position of twice its run time gets the progress 200.
\<close>

theorem progress_overrun:
  "map_sum id (map_option progress) (fetchJellyfinData example_settings overrun_fetch)
     = Inr (Some (Some (Num 200)))"
  by (simp add: fetchJellyfinData_def fetchJellyfinData_try_def example_settings_def
        jf_playingSession_def overrun_fetch_def overrun_session_def
        jf_media_def jf_baseData_def jf_variant_def jf_getMediaType_def
        example_item_def eval_defs)

subsection \<open>The fields of the variants\<close>

lemma jf_media_variant_fields:
  assumes "jf_media url key s = Inr m"
  shows "(mtype m \<noteq> EPISODE \<longrightarrow> series m = None \<and> season m = None \<and> episode m = None)
       \<and> (mtype m \<noteq> AUDIO \<longrightarrow> artist m = None \<and> albumArtist m = None \<and> albumTitle m = None)
       \<and> photographer m = None"
proof -
  from assms obtain item b where b: "jf_baseData url key item (PlayState s) = Inr b"
    and m: "m = jf_variant item b"
    using jf_media_InrD by blast
  from jf_baseData_InrD [OF b] have none:
    "series b = None" "season b = None" "episode b = None"
    "artist b = None" "albumArtist b = None" "albumTitle b = None" "photographer b = None"
    by auto
  show ?thesis
    unfolding m using none
    by (cases "mtype b") (simp_all add: jf_variant_def)
qed

lemma plex_media_variant_fields:
  assumes "plex_media url key s = Inr m"
  shows "(mtype m \<noteq> EPISODE \<longrightarrow> series m = None \<and> season m = None \<and> episode m = None)
       \<and> (mtype m \<noteq> AUDIO \<longrightarrow> artist m = None \<and> albumArtist m = None \<and> albumTitle m = None)
       \<and> (mtype m \<noteq> PHOTO \<longrightarrow> photographer m = None)"
proof -
  from assms obtain b where b: "plex_baseData url key s = Inr b"
    and m: "m = plex_variant s b"
    using plex_media_InrD by blast
  from plex_baseData_InrD [OF b] have none:
    "series b = None" "season b = None" "episode b = None"
    "artist b = None" "albumArtist b = None" "albumTitle b = None" "photographer b = None"
    by auto
  show ?thesis
    unfolding m using none
    by (cases "mtype b") (simp_all add: plex_variant_def)
qed

text \<open>
  C10. In every \<^verbatim>\<open>MediaData\<close> that an adapter returns, \<^verbatim>\<open>series\<close>, \<^verbatim>\<open>season\<close> and
  \<^verbatim>\<open>episode\<close> are set only when the type is Episode, \<^verbatim>\<open>artist\<close>, \<^verbatim>\<open>albumArtist\<close> and
  \<^verbatim>\<open>albumTitle\<close> only when it is Audio, and \<^verbatim>\<open>photographer\<close> only when it is Photo.
\<close>

theorem variant_fields_absent:
  "(fetchJellyfinData st jf = Inr (Some m) \<or> fetchPlexData st pf = Inr (Some m)) \<longrightarrow>
     (mtype m \<noteq> EPISODE \<longrightarrow> series m = None \<and> season m = None \<and> episode m = None)
   \<and> (mtype m \<noteq> AUDIO \<longrightarrow> artist m = None \<and> albumArtist m = None \<and> albumTitle m = None)
   \<and> (mtype m \<noteq> PHOTO \<longrightarrow> photographer m = None)"
  using fetchJellyfinData_SomeD [of st jf m] fetchPlexData_SomeD [of st pf m]
        jf_media_variant_fields [of "the (serverUrl st)" "the (apiKey st)" _ m]
        plex_media_variant_fields [of "the (serverUrl st)" "the (apiKey st)" _ m]
  by blast

theorem variant_fields_absent_witness:
  "fetchJellyfinData example_settings example_jf_fetch = Inr (Some example_media)
   \<and> mtype example_media = EPISODE
   \<and> artist example_media = None \<and> albumArtist example_media = None
   \<and> albumTitle example_media = None \<and> photographer example_media = None
   \<and> fetchPlexData example_settings example_plex_fetch = Inr (Some example_plex_media)
   \<and> mtype example_plex_media = AUDIO
   \<and> series example_plex_media = None \<and> season example_plex_media = None
   \<and> episode example_plex_media = None \<and> photographer example_plex_media = None"
  using variant_fields_absent [of example_settings example_jf_fetch example_media example_plex_fetch]
        variant_fields_absent [of example_settings example_jf_fetch example_plex_media example_plex_fetch]
        example_jf_result example_plex_result
  by (simp add: example_media_def example_plex_media_def)

subsection \<open>The adapters never throw\<close>

lemma fetchJellyfinData_total: "\<exists>r. fetchJellyfinData st f = Inr r"
  by (cases "fetchJellyfinData_try (the (serverUrl st)) (the (apiKey st)) f")
     (simp_all add: fetchJellyfinData_def try_catch_def)

lemma fetchPlexData_total: "\<exists>r. fetchPlexData st f = Inr r"
  by (cases "fetchPlexData_try (the (serverUrl st)) (the (apiKey st)) f")
     (simp_all add: fetchPlexData_def try_catch_def)

lemma fetchJellyfinData_no_session:
  "jf_playingSession (the (serverUrl st)) (the (apiKey st)) f = Inr None
   \<or> jf_playingSession (the (serverUrl st)) (the (apiKey st)) f = Inl e
   \<Longrightarrow> fetchJellyfinData st f = Inr None"
  by (auto simp: fetchJellyfinData_def fetchJellyfinData_try_def try_catch_def thenE_def)

lemma fetchPlexData_no_session:
  "plex_firstSession (the (serverUrl st)) (the (apiKey st)) f = Inr None
   \<or> plex_firstSession (the (serverUrl st)) (the (apiKey st)) f = Inl e
   \<Longrightarrow> fetchPlexData st f = Inr None"
  by (auto simp: fetchPlexData_def fetchPlexData_try_def try_catch_def thenE_def)

lemma find_None_list_all: "list_all (\<lambda>s. \<not> P s) xs \<Longrightarrow> find P xs = None"
  by (induction xs) simp_all

lemma jf_playingSession_fail:
  assumes "f (url @ ''/Sessions'') [(''X-Emby-Token'', key)] = r"
  shows "(\<exists>e. r = Inl e) \<or> (\<exists>resp. r = Inr resp \<and> (\<not> ok resp \<or> (\<exists>e. json resp = Inl e)
              \<or> json resp = Inr NotAnArray))
         \<Longrightarrow> \<exists>e. jf_playingSession url key f = Inl e"
  using assms by (auto simp: jf_playingSession_def thenE_def)

lemma jf_playingSession_idle:
  assumes "f (url @ ''/Sessions'') [(''X-Emby-Token'', key)] = Inr resp" "ok resp"
    "json resp = Inr (Sessions ss)" "list_all (\<lambda>s. NowPlayingItem s = None) ss"
  shows "jf_playingSession url key f = Inr None"
  using assms find_None_list_all [of "\<lambda>s. NowPlayingItem s \<noteq> None" ss]
  by (simp add: jf_playingSession_def thenE_def)

lemma plex_firstSession_fail:
  assumes "f (url @ ''/status/sessions'')
             [(''X-Plex-Token'', key), (''Accept'', ''application/json'')] = r"
  shows "(\<exists>e. r = Inl e) \<or> (\<exists>resp. r = Inr resp \<and> (\<not> ok resp \<or> (\<exists>e. json resp = Inl e)
              \<or> (\<exists>d. json resp = Inr d \<and> MediaContainer d = None)))
         \<Longrightarrow> \<exists>e. plex_firstSession url key f = Inl e"
  using assms by (auto simp: plex_firstSession_def thenE_def)

lemma plex_firstSession_idle:
  assumes "f (url @ ''/status/sessions'')
             [(''X-Plex-Token'', key), (''Accept'', ''application/json'')] = Inr resp" "ok resp"
    "json resp = Inr d" "MediaContainer d = Some c" "Metadata c = None \<or> Metadata c = Some []"
  shows "plex_firstSession url key f = Inr None"
  using assms by (auto simp: plex_firstSession_def thenE_def)

text \<open>
  C2. For every configuration and every outcome of the request, \<^verbatim>\<open>fetchJellyfinData\<close>
  and \<^verbatim>\<open>fetchPlexData\<close> return a \<^verbatim>\<open>MediaData\<close> or null and never throw. They return null
  when the server URL or the credential is unset or empty, when the request is rejected,
  when the response is not ok, when the body cannot be parsed or has not the shape read
  from it, and when no session is playing. Behind the configuration guard the whole body
  of each adapter is inside \<^verbatim>\<open>try\<close>, and the handler returns null.
\<close>

theorem adapters_never_throw:
  "(\<exists>r. fetchJellyfinData st jf = Inr r) \<and> (\<exists>r. fetchPlexData st pf = Inr r)
   \<and> (\<not> truthy_str (serverUrl st) \<or> \<not> truthy_str (apiKey st) \<longrightarrow>
        fetchJellyfinData st jf = Inr None \<and> fetchPlexData st pf = Inr None)
   \<and> ((\<exists>e. jf (the (serverUrl st) @ ''/Sessions'') [(''X-Emby-Token'', the (apiKey st))] = Inl e)
        \<longrightarrow> fetchJellyfinData st jf = Inr None)
   \<and> (\<forall>resp. jf (the (serverUrl st) @ ''/Sessions'') [(''X-Emby-Token'', the (apiKey st))]
                 = Inr resp \<longrightarrow>
         (\<not> ok resp \<longrightarrow> fetchJellyfinData st jf = Inr None)
       \<and> ((\<exists>e. json resp = Inl e) \<longrightarrow> fetchJellyfinData st jf = Inr None)
       \<and> (json resp = Inr NotAnArray \<longrightarrow> fetchJellyfinData st jf = Inr None)
       \<and> (\<forall>ss. json resp = Inr (Sessions ss) \<and> list_all (\<lambda>s. NowPlayingItem s = None) ss
             \<longrightarrow> fetchJellyfinData st jf = Inr None))
   \<and> ((\<exists>e. pf (the (serverUrl st) @ ''/status/sessions'')
              [(''X-Plex-Token'', the (apiKey st)), (''Accept'', ''application/json'')] = Inl e)
        \<longrightarrow> fetchPlexData st pf = Inr None)
   \<and> (\<forall>resp. pf (the (serverUrl st) @ ''/status/sessions'')
              [(''X-Plex-Token'', the (apiKey st)), (''Accept'', ''application/json'')]
                 = Inr resp \<longrightarrow>
         (\<not> ok resp \<longrightarrow> fetchPlexData st pf = Inr None)
       \<and> ((\<exists>e. json resp = Inl e) \<longrightarrow> fetchPlexData st pf = Inr None)
       \<and> (\<forall>d. json resp = Inr d \<and> MediaContainer d = None \<longrightarrow> fetchPlexData st pf = Inr None)
       \<and> (\<forall>d c. json resp = Inr d \<and> MediaContainer d = Some c
                  \<and> (Metadata c = None \<or> Metadata c = Some [])
             \<longrightarrow> fetchPlexData st pf = Inr None))"
proof (intro conjI)
  show "\<exists>r. fetchJellyfinData st jf = Inr r" by (rule fetchJellyfinData_total)
  show "\<exists>r. fetchPlexData st pf = Inr r" by (rule fetchPlexData_total)
  show "\<not> truthy_str (serverUrl st) \<or> \<not> truthy_str (apiKey st) \<longrightarrow>
        fetchJellyfinData st jf = Inr None \<and> fetchPlexData st pf = Inr None"
    by (auto simp: fetchJellyfinData_def fetchPlexData_def)
  show "(\<exists>e. jf (the (serverUrl st) @ ''/Sessions'') [(''X-Emby-Token'', the (apiKey st))] = Inl e)
        \<longrightarrow> fetchJellyfinData st jf = Inr None"
    using jf_playingSession_fail [of jf "the (serverUrl st)" "the (apiKey st)" _, OF refl]
          fetchJellyfinData_no_session [of st jf]
    by blast
  show "\<forall>resp. jf (the (serverUrl st) @ ''/Sessions'') [(''X-Emby-Token'', the (apiKey st))]
                 = Inr resp \<longrightarrow>
         (\<not> ok resp \<longrightarrow> fetchJellyfinData st jf = Inr None)
       \<and> ((\<exists>e. json resp = Inl e) \<longrightarrow> fetchJellyfinData st jf = Inr None)
       \<and> (json resp = Inr NotAnArray \<longrightarrow> fetchJellyfinData st jf = Inr None)
       \<and> (\<forall>ss. json resp = Inr (Sessions ss) \<and> list_all (\<lambda>s. NowPlayingItem s = None) ss
             \<longrightarrow> fetchJellyfinData st jf = Inr None)"
  proof (intro allI impI)
    fix resp
    assume r: "jf (the (serverUrl st) @ ''/Sessions'') [(''X-Emby-Token'', the (apiKey st))]
                 = Inr resp"
    have idle: "fetchJellyfinData st jf = Inr None"
      if "json resp = Inr (Sessions ss)" "list_all (\<lambda>s. NowPlayingItem s = None) ss" for ss
    proof (cases "ok resp")
      case True
      from r True that
      have "jf_playingSession (the (serverUrl st)) (the (apiKey st)) jf = Inr None"
        by (rule jf_playingSession_idle)
      then show ?thesis
        using fetchJellyfinData_no_session [of st jf] by blast
    next
      case False
      then show ?thesis
        using jf_playingSession_fail [of jf "the (serverUrl st)" "the (apiKey st)" "Inr resp", OF r] fetchJellyfinData_no_session [of st jf] by blast
    qed
    show "(\<not> ok resp \<longrightarrow> fetchJellyfinData st jf = Inr None)
       \<and> ((\<exists>e. json resp = Inl e) \<longrightarrow> fetchJellyfinData st jf = Inr None)
       \<and> (json resp = Inr NotAnArray \<longrightarrow> fetchJellyfinData st jf = Inr None)
       \<and> (\<forall>ss. json resp = Inr (Sessions ss) \<and> list_all (\<lambda>s. NowPlayingItem s = None) ss
             \<longrightarrow> fetchJellyfinData st jf = Inr None)"
      using jf_playingSession_fail [of jf "the (serverUrl st)" "the (apiKey st)" "Inr resp", OF r] fetchJellyfinData_no_session [of st jf] idle
      by blast
  qed
  show "(\<exists>e. pf (the (serverUrl st) @ ''/status/sessions'')
              [(''X-Plex-Token'', the (apiKey st)), (''Accept'', ''application/json'')] = Inl e)
        \<longrightarrow> fetchPlexData st pf = Inr None"
    using plex_firstSession_fail [of pf "the (serverUrl st)" "the (apiKey st)" _, OF refl]
          fetchPlexData_no_session [of st pf]
    by blast
  show "\<forall>resp. pf (the (serverUrl st) @ ''/status/sessions'')
              [(''X-Plex-Token'', the (apiKey st)), (''Accept'', ''application/json'')]
                 = Inr resp \<longrightarrow>
         (\<not> ok resp \<longrightarrow> fetchPlexData st pf = Inr None)
       \<and> ((\<exists>e. json resp = Inl e) \<longrightarrow> fetchPlexData st pf = Inr None)
       \<and> (\<forall>d. json resp = Inr d \<and> MediaContainer d = None \<longrightarrow> fetchPlexData st pf = Inr None)
       \<and> (\<forall>d c. json resp = Inr d \<and> MediaContainer d = Some c
                  \<and> (Metadata c = None \<or> Metadata c = Some [])
             \<longrightarrow> fetchPlexData st pf = Inr None)"
  proof (intro allI impI)
    fix resp
    assume r: "pf (the (serverUrl st) @ ''/status/sessions'')
              [(''X-Plex-Token'', the (apiKey st)), (''Accept'', ''application/json'')]
                 = Inr resp"
    have idle: "fetchPlexData st pf = Inr None"
      if "json resp = Inr d" "MediaContainer d = Some c" "Metadata c = None \<or> Metadata c = Some []"
      for d c
    proof (cases "ok resp")
      case True
      from r True that
      have "plex_firstSession (the (serverUrl st)) (the (apiKey st)) pf = Inr None"
        by (rule plex_firstSession_idle)
      then show ?thesis
        using fetchPlexData_no_session [of st pf] by blast
    next
      case False
      then show ?thesis
        using plex_firstSession_fail [of pf "the (serverUrl st)" "the (apiKey st)" "Inr resp", OF r] fetchPlexData_no_session [of st pf] by blast
    qed
    show "(\<not> ok resp \<longrightarrow> fetchPlexData st pf = Inr None)
       \<and> ((\<exists>e. json resp = Inl e) \<longrightarrow> fetchPlexData st pf = Inr None)
       \<and> (\<forall>d. json resp = Inr d \<and> MediaContainer d = None \<longrightarrow> fetchPlexData st pf = Inr None)
       \<and> (\<forall>d c. json resp = Inr d \<and> MediaContainer d = Some c
                  \<and> (Metadata c = None \<or> Metadata c = Some [])
             \<longrightarrow> fetchPlexData st pf = Inr None)"
      using plex_firstSession_fail [of pf "the (serverUrl st)" "the (apiKey st)" "Inr resp", OF r] fetchPlexData_no_session [of st pf] idle
      by blast
  qed
qed

theorem adapters_never_throw_witness:
  "fetchJellyfinData (example_settings \<lparr> serverUrl := None \<rparr>) example_jf_fetch = Inr None
   \<and> fetchPlexData (example_settings \<lparr> apiKey := Some [] \<rparr>) example_plex_fetch = Inr None
   \<and> fetchJellyfinData example_settings rejecting_fetch = Inr None
   \<and> fetchPlexData example_settings rejecting_fetch = Inr None
   \<and> fetchJellyfinData example_settings error_fetch = Inr None
   \<and> fetchPlexData example_settings error_fetch = Inr None
   \<and> fetchJellyfinData example_settings garbage_fetch = Inr None
   \<and> fetchPlexData example_settings garbage_fetch = Inr None
   \<and> fetchJellyfinData example_settings not_array_fetch = Inr None
   \<and> fetchPlexData example_settings no_container_fetch = Inr None
   \<and> fetchJellyfinData example_settings idle_jf_fetch = Inr None
   \<and> fetchPlexData example_settings idle_plex_fetch = Inr None"
  using adapters_never_throw [of "example_settings \<lparr> serverUrl := None \<rparr>" example_jf_fetch
          example_plex_fetch]
        adapters_never_throw [of "example_settings \<lparr> apiKey := Some [] \<rparr>" example_jf_fetch
          example_plex_fetch]
        adapters_never_throw [of example_settings rejecting_fetch rejecting_fetch]
        adapters_never_throw [of example_settings error_fetch error_fetch]
        adapters_never_throw [of example_settings garbage_fetch garbage_fetch]
        adapters_never_throw [of example_settings not_array_fetch no_container_fetch]
        adapters_never_throw [of example_settings idle_jf_fetch idle_plex_fetch]
  by (simp add: example_settings_def truthy_str_def rejecting_fetch_def error_fetch_def
        garbage_fetch_def idle_jf_fetch_def idle_plex_fetch_def idle_session_def
        not_array_fetch_def no_container_fetch_def)

subsection \<open>The state line\<close>

lemma length_getState_parts: "length (getState_parts m) \<le> 1"
  by (simp add: getState_parts_def)

lemma js_join_short: "length ps \<le> 1 \<Longrightarrow> js_join sep ps = js_join sep' ps"
proof (cases ps)
  case Nil
  then show ?thesis by simp
next
  case (Cons p rest)
  assume "length ps \<le> 1"
  with Cons have "rest = []" by simp
  with Cons show ?thesis by simp
qed

text \<open>
  C5, amended. \<^verbatim>\<open>getState\<close> returns the title for an Episode whose title is not empty,
  \<^verbatim>\<open>from {albumTitle}\<close> for Audio with a non-empty album title, and \<^verbatim>\<open>Watching\<close> otherwise
  (so also for an Episode whose title is empty or undefined). The array that is joined
  never holds more than one entry, so the result is the same for every separator: neither
  the middle dot nor the bytes of the source's literal are ever inserted.
\<close>

theorem getState_spec:
  "getState m =
     (if mtype m = EPISODE \<and> truthy_str (title m) then the (title m)
      else if mtype m = AUDIO \<and> truthy_str (albumTitle m) then ''from '' @ the (albumTitle m)
      else ''Watching'')
   \<and> length (getState_parts m) \<le> 1
   \<and> js_join sep (getState_parts m) = js_join state_separator (getState_parts m)"
proof (intro conjI)
  show "getState m =
     (if mtype m = EPISODE \<and> truthy_str (title m) then the (title m)
      else if mtype m = AUDIO \<and> truthy_str (albumTitle m) then ''from '' @ the (albumTitle m)
      else ''Watching'')"
    by (cases "title m") (auto simp: getState_def getState_parts_def truthy_str_def)
  show "length (getState_parts m) \<le> 1" by (rule length_getState_parts)
  show "js_join sep (getState_parts m) = js_join state_separator (getState_parts m)"
    by (rule js_join_short) (rule length_getState_parts)
qed

text \<open>
  The examples of C5: an Episode titled Pilot, Audio from the album Abbey Road and a
  Movie.
\<close>

theorem getState_examples:
  "getState example_media = ''Pilot''
   \<and> getState example_plex_media = ''from Abbey Road''
   \<and> getState example_movie = ''Watching''"
  using getState_spec [of example_media] getState_spec [of example_plex_media]
        getState_spec [of example_movie]
  by (simp add: example_media_def example_plex_media_def example_movie_def truthy_str_def)

text \<open>
  C5 as stated fails for an Episode with the empty title: the joined string is empty,
  hence falsy, and \<^verbatim>\<open>|| "Watching"\<close> replaces it.
\<close>

theorem getState_episode_empty_title:
  "mtype empty_title_episode = EPISODE \<and> title empty_title_episode = Some []
   \<and> getState empty_title_episode = ''Watching''"
  by (simp add: empty_title_episode_def example_media_def getState_def getState_parts_def
        truthy_str_def)

subsection \<open>One run of \<^verbatim>\<open>updatePresence\<close>\<close>

lemma fetch_media_total: "\<exists>r. fetch_media env = Inr r"
  using fetchJellyfinData_total fetchPlexData_total by (simp add: fetch_media_def)

lemma updatePresence_absent:
  "fetch_media env = Inr None \<Longrightarrow> updatePresence env snk = snk @ [clear_event]"
  by (simp add: updatePresence_def updatePresence_try_def thenE_def clearPresence_def)

lemma updatePresence_paused:
  "fetch_media env = Inr (Some m) \<Longrightarrow> truthy_bool (isPaused m) \<Longrightarrow> hideWhenPaused (store env)
   \<Longrightarrow> updatePresence env snk = snk @ [clear_event]"
  by (simp add: updatePresence_def updatePresence_try_def thenE_def clearPresence_def)

lemma updatePresence_other:
  "fetch_media env = Inr (Some m) \<Longrightarrow> hideWhenOtherActivity (store env)
   \<Longrightarrow> list_ex (\<lambda>a. store_application_id a \<noteq> Some DISCORD_APP_ID) (getActivities env)
   \<Longrightarrow> updatePresence env snk = snk @ [clear_event]"
  by (simp add: updatePresence_def updatePresence_try_def thenE_def clearPresence_def)

lemma updatePresence_shown:
  assumes "fetch_media env = Inr (Some m)" "\<not> suppressed env m"
  shows "updatePresence env snk =
     (case make_assets env m of
        Inl e \<Rightarrow> snk @ [clear_event]
      | Inr as \<Rightarrow>
          snk @ [\<lparr> event_type = ''LOCAL_ACTIVITY_UPDATE'',
                   event_activity = Some
                     \<lparr> application_id = DISCORD_APP_ID,
                       name = title m,
                       details = getDetails (store env) m,
                       state = getState m,
                       activity_assets = as,
                       activity_timestamps = make_timestamps env m,
                       activity_type = (if mtype m = AUDIO then 2 else 3),
                       flags = 1 \<rparr>,
                   socketId = ''MediaStatus'' \<rparr>])"
  using assms
  by (auto simp: updatePresence_def updatePresence_try_def thenE_def clearPresence_def
        suppressed_def split: sum.splits)

lemma updatePresence_appends_one: "\<exists>ev. updatePresence env snk = snk @ [ev]"
proof -
  obtain r where r: "fetch_media env = Inr r" using fetch_media_total by blast
  show ?thesis
  proof (cases r)
    case None
    with r show ?thesis using updatePresence_absent by blast
  next
    case (Some m)
    show ?thesis
    proof (cases "suppressed env m")
      case True
      with r Some show ?thesis
        using updatePresence_paused [of env m snk] updatePresence_other [of env m snk]
        by (auto simp: suppressed_def)
    next
      case False
      with r Some show ?thesis
        using updatePresence_shown [of env m snk]
        by (cases "make_assets env m") auto
    qed
  qed
qed

lemma example_fetch_media: "fetch_media example_env = Inr (Some example_media)"
  by (simp add: fetch_media_def example_env_def example_jf_result)
     (simp add: example_settings_def)

lemma example_details: "getDetails example_settings example_media = Some ''Show - Season 1 Episode 2''"
  by (simp add: getDetails_def example_media_def formatEpisodeNumber_def example_settings_def
        tmpl_def numToString_def dec_nat.simps digit_char_def)

lemma example_state: "getState example_media = ''Pilot''"
  by (simp add: getState_def getState_parts_def example_media_def)

lemma example_updatePresence: "updatePresence example_env snk = snk @ [example_event]"
proof -
  have ns: "\<not> suppressed example_env example_media"
    by (simp add: suppressed_def example_env_def example_media_def truthy_bool_def)
  have as: "make_assets example_env example_media = Inr None"
    by (simp add: make_assets_def example_media_def truthy_str_def)
  have ts: "make_timestamps example_env example_media
              = Some \<lparr> ts_start = 997500, ts_end = 1002501 \<rparr>"
    by (simp add: make_timestamps_def example_env_def example_settings_def example_media_def
          truthy_num_def position_or_0_def)
  have st: "store example_env = example_settings" by (simp add: example_env_def)
  show ?thesis
    using updatePresence_shown [OF example_fetch_media ns, of snk]
    by (simp add: as ts st example_details example_state example_event_def example_activity_def)
       (simp add: example_media_def)
qed


lemma paused_fetch_media:
  "fetch_media paused_env = Inr (Some (example_media \<lparr> isPaused := Some True \<rparr>))"
  by (simp add: fetch_media_def paused_env_def example_env_def example_settings_def
        fetchJellyfinData_def fetchJellyfinData_try_def jf_playingSession_def paused_session_def
        jf_media_def jf_baseData_def jf_variant_def jf_getMediaType_def
        example_item_def example_media_def eval_defs)

text \<open>
  C3. When \<^verbatim>\<open>hideWhenPaused\<close> is set and the adapter returns a \<^verbatim>\<open>MediaData\<close> with
  \<^verbatim>\<open>isPaused = true\<close>, one run of \<^verbatim>\<open>updatePresence\<close> dispatches exactly one event, the
  clear signal, and no populated activity.
\<close>

theorem hide_when_paused:
  "hideWhenPaused (store env) \<and> fetch_media env = Inr (Some m) \<and> isPaused m = Some True \<longrightarrow>
     updatePresence env snk = snk @ [clear_event]"
  using updatePresence_paused [of env m snk] by (simp add: truthy_bool_def)

theorem hide_when_paused_witness:
  "hideWhenPaused (store paused_env)
   \<and> fetch_media paused_env = Inr (Some (example_media \<lparr> isPaused := Some True \<rparr>))
   \<and> updatePresence paused_env [] = [clear_event]
   \<and> event_activity clear_event = None"
  using hide_when_paused [of paused_env "example_media \<lparr> isPaused := Some True \<rparr>" "[]"]
        paused_fetch_media
  by (simp add: paused_env_def example_env_def example_settings_def clear_event_def)

text \<open>
  C4. When \<^verbatim>\<open>hideWhenOtherActivity\<close> is set and the presence store lists an activity whose
  application id is not \<^verbatim>\<open>DISCORD_APP_ID\<close>, one run of \<^verbatim>\<open>updatePresence\<close> dispatches exactly
  the clear signal, whatever the adapter returns.
\<close>

theorem hide_when_other_activity:
  "hideWhenOtherActivity (store env)
   \<and> (\<exists>a \<in> set (getActivities env). store_application_id a \<noteq> Some DISCORD_APP_ID) \<longrightarrow>
     updatePresence env snk = snk @ [clear_event]"
proof
  assume a: "hideWhenOtherActivity (store env)
   \<and> (\<exists>a \<in> set (getActivities env). store_application_id a \<noteq> Some DISCORD_APP_ID)"
  then have ex: "list_ex (\<lambda>a. store_application_id a \<noteq> Some DISCORD_APP_ID) (getActivities env)"
    by (simp add: list_ex_iff)
  obtain r where r: "fetch_media env = Inr r" using fetch_media_total by blast
  show "updatePresence env snk = snk @ [clear_event]"
  proof (cases r)
    case None
    with r show ?thesis using updatePresence_absent by blast
  next
    case (Some m)
    with r a ex show ?thesis using updatePresence_other by blast
  qed
qed

theorem hide_when_other_activity_witness:
  "hideWhenOtherActivity (store busy_env)
   \<and> list_ex (\<lambda>a. store_application_id a \<noteq> Some DISCORD_APP_ID) (getActivities busy_env)
   \<and> updatePresence busy_env [] = [clear_event]"
  using hide_when_other_activity [of busy_env "[]"]
  by (simp add: busy_env_def example_env_def DISCORD_APP_ID_def)






subsection \<open>The life cycle: \<^verbatim>\<open>start\<close>, \<^verbatim>\<open>stop\<close> and the runs in flight\<close>

lemma stop_dispatched: "dispatched (stop p) = dispatched p @ [clear_event]"
  by (cases "interval p") (simp_all add: stop_def clearPresence_def)

lemma stop_interval: "interval (stop p) = None"
  by (cases "interval p") (simp_all add: stop_def)

lemma stop_in_flight: "in_flight (stop p) = in_flight p"
  by (cases "interval p") (simp_all add: stop_def)

lemma stop_timers:
  "timers (stop p) = (case interval p of None \<Rightarrow> timers p | Some h \<Rightarrow> removeAll h (timers p))"
  by (cases "interval p") (simp_all add: stop_def)

lemma stop_timers_empty:
  assumes "\<forall>h \<in> set (timers p). interval p = Some h"
  shows "timers (stop p) = []"
proof (cases "interval p")
  case None
  with assms have "set (timers p) = {}" by auto
  with None show ?thesis by (simp add: stop_timers)
next
  case (Some h)
  with assms have "set (timers p) \<subseteq> {h}" by auto
  then have "set (removeAll h (timers p)) = {}" by auto
  then have "removeAll h (timers p) = []" by (simp only: set_empty)
  with Some show ?thesis by (simp add: stop_timers)
qed

lemma step_quiet:
  assumes "timers q = []" "\<not> is_call ev"
  shows "timers (step q ev) = []
         \<and> (\<exists>new. dispatched (step q ev) = dispatched q @ new
                \<and> length new + length (in_flight (step q ev)) = length (in_flight q))"
proof (cases ev)
  case (Start env)
  with assms show ?thesis by simp
next
  case Stop
  with assms show ?thesis by simp
next
  case (Tick h env)
  with assms show ?thesis by (simp add: tick_def)
next
  case (Resume k)
  show ?thesis
  proof (cases "k < length (in_flight q)")
    case True
    obtain ev' where "updatePresence (in_flight q ! k) (dispatched q) = dispatched q @ [ev']"
      using updatePresence_appends_one by blast
    with True Resume assms show ?thesis by (simp add: resume_def)
  next
    case False
    with Resume assms show ?thesis by (simp add: resume_def)
  qed
qed

lemma run_quiet:
  assumes "timers q = []" "\<not> list_ex is_call evs"
  shows "\<exists>new. dispatched (run q evs) = dispatched q @ new
               \<and> length new + length (in_flight (run q evs)) = length (in_flight q)"
  using assms
proof (induction evs arbitrary: q)
  case Nil
  then show ?case by (simp add: run_def)
next
  case (Cons ev evs)
  from Cons.prems have ev: "\<not> is_call ev" and evs: "\<not> list_ex is_call evs" by simp_all
  from step_quiet [OF Cons.prems(1) ev] obtain new1 where
    t: "timers (step q ev) = []" and
    d: "dispatched (step q ev) = dispatched q @ new1" and
    l: "length new1 + length (in_flight (step q ev)) = length (in_flight q)"
    by blast
  from Cons.IH [OF t evs] obtain new2 where
    d2: "dispatched (run (step q ev) evs) = dispatched (step q ev) @ new2" and
    l2: "length new2 + length (in_flight (run (step q ev) evs)) = length (in_flight (step q ev))"
    by blast
  have "run q (ev # evs) = run (step q ev) evs" by (simp add: run_def)
  with d d2 l l2 show ?case by (intro exI [of _ "new1 @ new2"]) simp
qed

text \<open>
  C8, amended. Every call of \<^verbatim>\<open>stop\<close> dispatches exactly one clear signal before it
  returns, also when no timer is running, cancels the timer it holds and resets the handle
  to empty. Afterwards, as long as \<^verbatim>\<open>start\<close> and \<^verbatim>\<open>stop\<close> are not called again and no
  timer of an earlier unpaired \<^verbatim>\<open>start\<close> is left, no new run of \<^verbatim>\<open>updatePresence\<close> begins:
  the only later dispatches are those of the runs that were in flight when \<^verbatim>\<open>stop\<close> was
  called, one each at most, and there is none when no run was in flight.
\<close>

theorem stop_spec:
  "dispatched (stop p) = dispatched p @ [clear_event]
   \<and> interval (stop p) = None
   \<and> (\<forall>h. interval p = Some h \<longrightarrow> h \<notin> set (timers (stop p)))
   \<and> ((\<forall>h \<in> set (timers p). interval p = Some h) \<and> \<not> list_ex is_call evs \<longrightarrow>
        (\<exists>later. dispatched (run (stop p) evs) = dispatched p @ [clear_event] @ later
                 \<and> length later \<le> length (in_flight p))
        \<and> (in_flight p = [] \<longrightarrow> dispatched (run (stop p) evs) = dispatched p @ [clear_event]))"
proof (intro conjI allI impI)
  show "dispatched (stop p) = dispatched p @ [clear_event]" by (rule stop_dispatched)
  show "interval (stop p) = None" by (rule stop_interval)
  show "h \<notin> set (timers (stop p))" if "interval p = Some h" for h
    using that by (simp add: stop_timers)
next
  assume a: "(\<forall>h \<in> set (timers p). interval p = Some h) \<and> \<not> list_ex is_call evs"
  then have "timers (stop p) = []" using stop_timers_empty by blast
  with a obtain new where
    d: "dispatched (run (stop p) evs) = dispatched (stop p) @ new" and
    l: "length new + length (in_flight (run (stop p) evs)) = length (in_flight (stop p))"
    using run_quiet [of "stop p" evs] by blast
  from l have le: "length new \<le> length (in_flight p)" by (simp add: stop_in_flight)
  from d le show "\<exists>later. dispatched (run (stop p) evs) = dispatched p @ [clear_event] @ later
                 \<and> length later \<le> length (in_flight p)"
    by (simp add: stop_dispatched)
  {
    assume "in_flight p = []"
    with le have "new = []" by simp
    with d show "dispatched (run (stop p) evs) = dispatched p @ [clear_event]"
      by (simp add: stop_dispatched)
  }
qed

theorem stop_spec_witness:
  "dispatched (stop (run init [Start example_env, Resume 0])) = [example_event, clear_event]
   \<and> interval (run init [Start example_env, Resume 0]) = Some 1
   \<and> interval (stop (run init [Start example_env, Resume 0])) = None
   \<and> timers (stop (run init [Start example_env, Resume 0])) = []
   \<and> dispatched (run (stop (run init [Start example_env, Resume 0]))
        [Tick 1 example_env, Resume 0, Tick 1 example_env]) = [example_event, clear_event]"
  using stop_spec [of "run init [Start example_env, Resume 0]"
          "[Tick 1 example_env, Resume 0, Tick 1 example_env]"]
        example_updatePresence [of "[]"]
  by (simp add: run_def init_def start_def stop_def resume_def tick_def clearPresence_def)

text \<open>
  C8 as stated fails: \<^verbatim>\<open>stop\<close> does not abort a run of \<^verbatim>\<open>updatePresence\<close> that is
  suspended at an \<^verbatim>\<open>await\<close>. The run that \<^verbatim>\<open>start\<close> began dispatches its activity after
  \<^verbatim>\<open>stop\<close> has returned.
\<close>

theorem emission_after_stop:
  "dispatched (run init [Start example_env, Stop]) = [clear_event]
   \<and> dispatched (run init [Start example_env, Stop, Resume 0]) = [clear_event, example_event]
   \<and> event_activity example_event = Some example_activity"
  using example_updatePresence [of "[clear_event]"]
  by (simp add: run_def init_def start_def stop_def resume_def clearPresence_def example_event_def)

end
